theory Spec2Isabelle
  imports Complex_Main
begin

section \<open>Data model of main.js\<close>

text \<open>
  The program is one JavaScript module over the three.js scene graph. Its mutable module
  state (the player, the target, paintball and splatter arrays, the pointer-lock flag, the
  accumulated mouse deltas, the key table, the focus mode) is collected in one record and
  every function of the module takes the state and returns the updated one.

  JavaScript numbers are modelled as \<^typ>\<open>real\<close>: the embedding follows the control flow
  and the arithmetic of the source over ideal numbers, without rounding, NaN or infinities.
  Objects created with \<open>new\<close> (meshes, groups) are identified by a natural number taken
  from an allocation counter; the children of the scene are the set of identifiers that
  were added and not removed. \<open>Math.random()\<close> reads the next element of a stream held in
  the state.
\<close>

subsection \<open>THREE.Vector3\<close>

datatype vec3 = Vector3 (vx: real) (vy: real) (vz: real)

definition add :: "vec3 \<Rightarrow> vec3 \<Rightarrow> vec3" where
  "add a b = Vector3 (vx a + vx b) (vy a + vy b) (vz a + vz b)"

definition multiplyScalar :: "vec3 \<Rightarrow> real \<Rightarrow> vec3" where
  "multiplyScalar a k = Vector3 (vx a * k) (vy a * k) (vz a * k)"

definition lengthSq :: "vec3 \<Rightarrow> real" where
  "lengthSq a = vx a * vx a + vy a * vy a + vz a * vz a"

definition vlength :: "vec3 \<Rightarrow> real" where
  "vlength a = sqrt (lengthSq a)"

definition distanceTo :: "vec3 \<Rightarrow> vec3 \<Rightarrow> real" where
  "distanceTo a b = vlength (Vector3 (vx a - vx b) (vy a - vy b) (vz a - vz b))"

text \<open>\<open>normalize\<close> divides by \<open>length() || 1\<close>: the zero vector stays the zero vector.\<close>

definition normalize :: "vec3 \<Rightarrow> vec3" where
  "normalize a = multiplyScalar a (1 / (if vlength a = 0 then 1 else vlength a))"

subsection \<open>Objects of the game\<close>

text \<open>A mesh (or group) of the scene graph: its identity and its position.\<close>

record mesh =
  mid :: nat
  position :: vec3

text \<open>
  The player, the targets and the paintballs all carry a mesh and a velocity; the records
  below extend this common part with the fields the source gives each of them.
\<close>

record body =
  mesh :: mesh
  velocity :: vec3

text \<open>
  \<open>player.recoil\<close> is undefined until the first shot and \<open>player.gun\<close> until the soldier
  model is loaded (\<open>None\<close>); \<open>gun\<close> holds \<open>gun.position.z\<close>.
\<close>

record player = body +
  onGround :: bool
  yaw :: real
  pitch :: real
  rotation_y :: real
  recoil :: "real option"
  gun :: "real option"

record target = body +
  hitRadius :: real
  tscore :: real
  oscillation :: real

record paintball = body +
  color :: real
  life :: real

text \<open>The entry of \<open>buildings\<close> that \<open>addBuilding\<close> records for a box of the city.\<close>

record building =
  bmesh :: mesh
  bx :: real
  bz :: real
  bw :: real
  bd :: real
  bh :: real

text \<open>
  A decal mesh of the \<open>splatters\<close> array: its identity and the arguments the source gives
  \<open>DecalGeometry\<close> (the object hit, the point hit, the size) and the colour.
\<close>

record splatter =
  smesh :: nat
  sobject :: nat
  spoint :: vec3
  ssize :: real
  scolor :: real

text \<open>
  An intersection returned by \<open>raycaster.intersectObjects\<close>. The raycaster is part of
  three.js, not of this program: it is a parameter of \<open>update\<close>, a function from the
  objects to test, the ray's origin and direction and the range \<open>far\<close> to the list of
  intersections, which three.js sorts by distance. Every intersection is taken to be with
  a face of a mesh, so that \<open>hit.face.normal\<close> exists.
\<close>

record hit =
  hpoint :: vec3
  hnormal :: vec3
  hobject :: nat
  hdistance :: real

type_synonym raycaster = "mesh list \<Rightarrow> vec3 \<Rightarrow> vec3 \<Rightarrow> real \<Rightarrow> hit list"

record camera =
  cposition :: vec3
  cdirection :: vec3
  fov :: real

datatype focus = focused | broad

record focusParams =
  pfov :: real
  fogDensity :: real
  vignette :: string
  label :: string

text \<open>
  The module state. \<open>focusModeEl\<close> and \<open>vignetteEl\<close> are the text and the class name
  of the two DOM elements, \<open>None\<close> when \<open>getElementById\<close> finds no element;
  \<open>fovTarget\<close> is the argument of the latest \<open>animateFOV\<close> call (the timed interpolation
  of \<open>camera.fov\<close> by \<open>requestAnimationFrame\<close> is not modelled).
\<close>

record state =
  next_id :: nat
  rnd :: "nat \<Rightarrow> real"
  rpos :: nat
  scene :: "nat set"
  disposed :: "nat set"
  ground :: mesh
  buildings :: "building list"
  buildingMeshes :: "mesh list"
  player :: "unit player_scheme"
  isPointerLocked :: bool
  mouseDeltaX :: real
  mouseDeltaY :: real
  keys :: "string \<rightharpoonup> bool"
  targets :: "unit target_scheme list"
  paintballs :: "unit paintball_scheme list"
  splatters :: "splatter list"
  score :: real
  focusMode :: focus
  focusModeEl :: "string option"
  vignetteEl :: "string option"
  fovTarget :: "real option"
  fog_near :: real
  fog_far :: real
  devicePixelRatio :: real
  pixelRatio :: real
  cam :: camera

subsection \<open>Focus mode\<close>

definition focusModes :: "focus \<Rightarrow> focusParams" where
  "focusModes m = (case m of
      focused \<Rightarrow> \<lparr>pfov = 45, fogDensity = 1 / 100, vignette = ''focused'', label = ''FOCUSED''\<rparr>
    | broad \<Rightarrow> \<lparr>pfov = 90, fogDensity = 3 / 100, vignette = ''broad'', label = ''BROAD''\<rparr>)"

definition animateFOV :: "real \<Rightarrow> state \<Rightarrow> state" where
  "animateFOV targetFOV s = s\<lparr>fovTarget := Some targetFOV\<rparr>"

definition toggleFocusMode :: "state \<Rightarrow> state" where
  "toggleFocusMode s =
    (let fm = (if focusMode s = focused then broad else focused);
         s1 = s\<lparr>focusMode := fm\<rparr>;
         mode = focusModes fm;
         s2 = s1\<lparr>focusModeEl := map_option (\<lambda>_. label mode) (focusModeEl s1)\<rparr>;
         s3 = s2\<lparr>vignetteEl := map_option (\<lambda>_. vignette mode) (vignetteEl s2)\<rparr>;
         s4 = animateFOV (pfov mode) s3;
         s5 = s4\<lparr>fog_near := (if fm = focused then 20 else 10),
                 fog_far := (if fm = focused then 100 else 60)\<rparr>
     in s5\<lparr>pixelRatio := (if fm = focused then devicePixelRatio s5
                            else devicePixelRatio s5 * (7 / 10))\<rparr>)"

subsection \<open>Allocation, randomness, the scene\<close>

text \<open>\<open>Math_random s k\<close> is the value of the \<open>k\<close>-th next call of \<open>Math.random()\<close>.\<close>

definition Math_random :: "state \<Rightarrow> nat \<Rightarrow> real" where
  "Math_random s k = rnd s (rpos s + k)"

definition scene_add :: "nat \<Rightarrow> state \<Rightarrow> state" where
  "scene_add obj s = s\<lparr>scene := insert obj (scene s)\<rparr>"

definition scene_remove :: "nat \<Rightarrow> state \<Rightarrow> state" where
  "scene_remove obj s = s\<lparr>scene := scene s - {obj}\<rparr>"

text \<open>\<open>geometry.dispose(); material.dispose()\<close> of a mesh.\<close>

definition dispose :: "nat \<Rightarrow> state \<Rightarrow> state" where
  "dispose obj s = s\<lparr>disposed := insert obj (disposed s)\<rparr>"

text \<open>\<open>xs.splice(i, 1)\<close>.\<close>

definition splice :: "nat \<Rightarrow> 'a list \<Rightarrow> 'a list" where
  "splice i xs = take i xs @ drop (Suc i) xs"

subsection \<open>Targets\<close>

definition MAX_TARGETS :: nat where
  "MAX_TARGETS = 30"

text \<open>
  \<open>createTarget\<close>: a new group at a random place in the air with a random drift velocity,
  added to the scene. The three ring meshes are children of the group and only rendered.
\<close>

definition createTarget :: "state \<Rightarrow> unit target_scheme \<times> state" where
  "createTarget s =
    (let angle = Math_random s 0 * pi * 2;
         distance = 10 + Math_random s 1 * 30;
         x = cos angle * distance;
         z = sin angle * distance;
         y = 3 + Math_random s 2 * 15;
         targetGroup = \<lparr>mid = next_id s, position = Vector3 x y z\<rparr>;
         driftVelocity = Vector3 ((Math_random s 3 - 1 / 2) * 2)
                                 ((Math_random s 4 - 1 / 2) * 1)
                                 ((Math_random s 5 - 1 / 2) * 2);
         s1 = scene_add (mid targetGroup) (s\<lparr>next_id := Suc (next_id s)\<rparr>)
     in (\<lparr>mesh = targetGroup, velocity = driftVelocity, hitRadius = 8 / 10, tscore = 10,
          oscillation = Math_random s 6 * pi * 2\<rparr>,
         s1\<lparr>rpos := rpos s1 + 7\<rparr>))"

text \<open>\<open>targets.push(createTarget())\<close>.\<close>

definition pushTarget :: "state \<Rightarrow> state" where
  "pushTarget s = (case createTarget s of (t, s1) \<Rightarrow> s1\<lparr>targets := targets s1 @ [t]\<rparr>)"

fun spawnTargets :: "nat \<Rightarrow> state \<Rightarrow> state" where
  "spawnTargets 0 s = s"
| "spawnTargets (Suc n) s = spawnTargets n (pushTarget s)"

subsection \<open>Paintballs, explosions and splatters\<close>

text \<open>One round of the loop of \<open>createExplosion\<close>: a particle is a paintball of life 0.5.\<close>

definition addParticle :: "vec3 \<Rightarrow> real \<Rightarrow> state \<Rightarrow> state" where
  "addParticle pos c s =
    (let particle = \<lparr>mid = next_id s, position = pos\<rparr>;
         s1 = scene_add (mid particle) (s\<lparr>next_id := Suc (next_id s)\<rparr>);
         v = Vector3 ((Math_random s 0 - 1 / 2) * 10)
                     ((Math_random s 1 - 1 / 2) * 10)
                     ((Math_random s 2 - 1 / 2) * 10)
     in s1\<lparr>rpos := rpos s1 + 3,
           paintballs := paintballs s1 @ [\<lparr>mesh = particle, velocity = v, color = c, life = 1 / 2\<rparr>]\<rparr>)"

fun explosionLoop :: "nat \<Rightarrow> vec3 \<Rightarrow> real \<Rightarrow> state \<Rightarrow> state" where
  "explosionLoop 0 pos c s = s"
| "explosionLoop (Suc n) pos c s = explosionLoop n pos c (addParticle pos c s)"

definition particleCount :: nat where
  "particleCount = 20"

definition createExplosion :: "vec3 \<Rightarrow> real \<Rightarrow> state \<Rightarrow> state" where
  "createExplosion pos c s = explosionLoop particleCount pos c s"

text \<open>
  \<open>addDecal\<close>: the decal mesh is added to the scene and pushed on \<open>splatters\<close>; when the
  array is then longer than 200 its first element is shifted off, removed from the scene
  and disposed. The function calls \<open>Math.random()\<close> 27 times (size, rotation, and 25 for
  the canvas texture, which is not modelled).
\<close>

definition addDecal :: "hit \<Rightarrow> real \<Rightarrow> state \<Rightarrow> state" where
  "addDecal h c s =
    (let size = 1 + Math_random s 0 * (15 / 10);
         m = \<lparr>smesh = next_id s, sobject = hobject h, spoint = hpoint h, ssize = size,
              scolor = c\<rparr>;
         s1 = scene_add (smesh m) (s\<lparr>next_id := Suc (next_id s), rpos := rpos s + 27\<rparr>);
         s2 = s1\<lparr>splatters := splatters s1 @ [m]\<rparr>
     in if length (splatters s2) > 200 then
          (let old = hd (splatters s2);
               s3 = s2\<lparr>splatters := tl (splatters s2)\<rparr>
           in dispose (smesh old) (scene_remove (smesh old) s3))
        else s2)"

definition playerHeight :: real where
  "playerHeight = 17 / 10"

text \<open>The world direction of the camera, as \<open>camera.getWorldDirection\<close> reads it.\<close>

definition getWorldDirection :: "camera \<Rightarrow> vec3" where
  "getWorldDirection c = cdirection c"

definition shootPaintball :: "state \<Rightarrow> state" where
  "shootPaintball s =
    (let c = Math_random s 0;
         dir = normalize (getWorldDirection (cam s));
         start0 = add (position (mesh (player s))) (Vector3 0 (playerHeight * (7 / 10)) 0);
         start = add start0 (multiplyScalar dir 1);
         ball = \<lparr>mid = next_id s, position = start\<rparr>;
         s1 = scene_add (mid ball) (s\<lparr>next_id := Suc (next_id s), rpos := rpos s + 1\<rparr>);
         s2 = s1\<lparr>paintballs := paintballs s1 @
                 [\<lparr>mesh = ball, velocity = multiplyScalar dir 40, color = c, life = 3\<rparr>]\<rparr>
     in s2\<lparr>player := (player s2)\<lparr>recoil := Some 1\<rparr>\<rparr>)"

subsection \<open>Event listeners\<close>

definition pointerlockchange :: "bool \<Rightarrow> state \<Rightarrow> state" where
  "pointerlockchange locked s = s\<lparr>isPointerLocked := locked\<rparr>"

definition mousemove :: "real \<Rightarrow> real \<Rightarrow> state \<Rightarrow> state" where
  "mousemove movementX movementY s =
    (if isPointerLocked s
     then s\<lparr>mouseDeltaX := mouseDeltaX s + movementX, mouseDeltaY := mouseDeltaY s + movementY\<rparr>
     else s)"

text \<open>\<open>document.exitPointerLock()\<close> on Escape changes nothing by itself: the browser answers
  with a \<open>pointerlockchange\<close> event.\<close>

definition keydown :: "string \<Rightarrow> state \<Rightarrow> state" where
  "keydown code s =
    (let s1 = s\<lparr>keys := (keys s)(code \<mapsto> True)\<rparr>
     in if code = ''Tab'' then toggleFocusMode s1 else s1)"

definition keyup :: "string \<Rightarrow> state \<Rightarrow> state" where
  "keyup code s = s\<lparr>keys := (keys s)(code \<mapsto> False)\<rparr>"

definition mousedown :: "int \<Rightarrow> state \<Rightarrow> state" where
  "mousedown button s = (if button = 0 \<and> isPointerLocked s then shootPaintball s else s)"

subsection \<open>The frame update: mouse look and player movement\<close>

text \<open>\<open>keys[code]\<close> is truthy when the key was pressed and not released.\<close>

definition pressed :: "state \<Rightarrow> string \<Rightarrow> bool" where
  "pressed s code = (keys s code = Some True)"

definition mouseLook :: "state \<Rightarrow> state" where
  "mouseLook s =
    (if isPointerLocked s then
       (let sensitivity = 2 / 1000;
            p1 = (player s)\<lparr>yaw := yaw (player s) - mouseDeltaX s * sensitivity\<rparr>;
            p2 = p1\<lparr>pitch := pitch p1 - mouseDeltaY s * sensitivity\<rparr>;
            p3 = p2\<lparr>pitch := max (- pi / 2 + 1 / 10) (min (pi / 2 - 1 / 10) (pitch p2))\<rparr>
        in s\<lparr>player := p3, mouseDeltaX := 0, mouseDeltaY := 0\<rparr>)
     else s)"

text \<open>
  The horizontal velocity from the keys W, A, S, D, rotated by the yaw. The animation
  actions of the soldier model are only rendered and left out.
\<close>

definition moveKeys :: "state \<Rightarrow> state" where
  "moveKeys s =
    (let moveSpeed = 10;
         z1 = (if pressed s ''KeyW'' then 0 - 1 else 0);
         z2 = (if pressed s ''KeyS'' then z1 + 1 else z1);
         x1 = (if pressed s ''KeyA'' then 0 - 1 else 0);
         x2 = (if pressed s ''KeyD'' then x1 + 1 else x1);
         move0 = Vector3 x2 0 z2;
         p = player s
     in if lengthSq move0 > 0 then
          (let move = normalize move0;
               sn = sin (yaw p);
               cs = cos (yaw p);
               worldMove = Vector3 (vx move * cs - vz move * sn) 0 (vx move * sn + vz move * cs)
           in s\<lparr>player := p\<lparr>velocity :=
                 Vector3 (vx worldMove * moveSpeed) (vy (velocity p)) (vz worldMove * moveSpeed)\<rparr>\<rparr>)
        else s\<lparr>player := p\<lparr>velocity := Vector3 0 (vy (velocity p)) 0\<rparr>\<rparr>)"

definition jump :: "state \<Rightarrow> state" where
  "jump s =
    (let p = player s
     in if pressed s ''Space'' \<and> onGround p
        then s\<lparr>player := p\<lparr>velocity := Vector3 (vx (velocity p)) 12 (vz (velocity p)),
                              onGround := False\<rparr>\<rparr>
        else s)"

definition applyGravity :: "real \<Rightarrow> state \<Rightarrow> state" where
  "applyGravity delta s =
    (let gravity = - 30;
         p = player s;
         v = velocity p
     in s\<lparr>player := p\<lparr>velocity := Vector3 (vx v) (vy v + gravity * delta) (vz v)\<rparr>\<rparr>)"

definition integratePosition :: "real \<Rightarrow> state \<Rightarrow> state" where
  "integratePosition delta s =
    (let p = player s;
         v = velocity p;
         pos = position (mesh p)
     in s\<lparr>player := p\<lparr>mesh := (mesh p)\<lparr>position :=
          Vector3 (vx pos + vx v * delta) (vy pos + vy v * delta) (vz pos + vz v * delta)\<rparr>\<rparr>\<rparr>)"

definition groundCollision :: "state \<Rightarrow> state" where
  "groundCollision s =
    (let minY = 0;
         p = player s;
         pos = position (mesh p)
     in if vy pos < minY then
          s\<lparr>player := p\<lparr>mesh := (mesh p)\<lparr>position := Vector3 (vx pos) minY (vz pos)\<rparr>,
                          velocity := Vector3 (vx (velocity p)) 0 (vz (velocity p)),
                          onGround := True\<rparr>\<rparr>
        else s)"

definition faceYaw :: "state \<Rightarrow> state" where
  "faceYaw s = s\<lparr>player := (player s)\<lparr>rotation_y := yaw (player s) + pi\<rparr>\<rparr>"

text \<open>The recoil animation of the gun; \<open>undefined > 0\<close> is false.\<close>

definition gunRecoil :: "real \<Rightarrow> state \<Rightarrow> state" where
  "gunRecoil delta s =
    (let p = player s
     in case gun p of
          None \<Rightarrow> s
        | Some _ \<Rightarrow>
            (case recoil p of
               Some r \<Rightarrow>
                 if r > 0 then
                   (let r1 = r - delta * 5
                    in s\<lparr>player := p\<lparr>recoil := Some r1,
                                        gun := Some (2 / 10 + sin (r1 * 10) * (1 / 10))\<rparr>\<rparr>)
                 else s\<lparr>player := p\<lparr>gun := Some (2 / 10), recoil := Some 0\<rparr>\<rparr>
             | None \<Rightarrow> s\<lparr>player := p\<lparr>gun := Some (2 / 10), recoil := Some 0\<rparr>\<rparr>))"

definition updatePlayer :: "real \<Rightarrow> state \<Rightarrow> state" where
  "updatePlayer delta s =
     gunRecoil delta (faceYaw (groundCollision (integratePosition delta
       (applyGravity delta (jump (moveKeys (mouseLook s)))))))"

subsection \<open>The frame update: targets\<close>

text \<open>
  The body of the loop over \<open>targets\<close>: drift, oscillation, the bound of 50 on the distance
  from the origin and the floor at height 2. The pulsing of the materials and the rotation
  towards the camera are only rendered and left out.
\<close>

definition driftTarget :: "real \<Rightarrow> unit target_scheme \<Rightarrow> unit target_scheme" where
  "driftTarget delta t =
    (let p1 = add (position (mesh t)) (multiplyScalar (velocity t) delta);
         osc = oscillation t + delta;
         oscillate = sin (osc * 2) * (1 / 2);
         p2 = Vector3 (vx p1) (vy p1 + oscillate * delta) (vz p1);
         maxDist = 50;
         v1 = (if vlength p2 > maxDist then multiplyScalar (velocity t) (- 1) else velocity t);
         t1 = t\<lparr>mesh := (mesh t)\<lparr>position := p2\<rparr>, velocity := v1, oscillation := osc\<rparr>
     in if vy p2 < 2 then
          t1\<lparr>mesh := (mesh t1)\<lparr>position := Vector3 (vx p2) 2 (vz p2)\<rparr>,
             velocity := Vector3 (vx v1) \<bar>vy v1\<bar> (vz v1)\<rparr>
        else t1)"

fun driftTargets :: "real \<Rightarrow> unit target_scheme list \<Rightarrow> unit target_scheme list" where
  "driftTargets delta [] = []"
| "driftTargets delta (t # ts) = driftTarget delta t # driftTargets delta ts"

definition updateTargets :: "real \<Rightarrow> state \<Rightarrow> state" where
  "updateTargets delta s = s\<lparr>targets := driftTargets delta (targets s)\<rparr>"

subsection \<open>The frame update: paintballs\<close>

text \<open>
  The inner loop over the targets runs \<open>j\<close> from \<open>targets.length - 1\<close> down to 0 and
  leaves at the first target closer to the paintball than its hit radius:
  \<open>hitIndex pos ts n\<close> is that index among the first \<open>n\<close> targets.
\<close>

fun hitIndex :: "vec3 \<Rightarrow> unit target_scheme list \<Rightarrow> nat \<Rightarrow> nat option" where
  "hitIndex pos ts 0 = None"
| "hitIndex pos ts (Suc j) =
    (if distanceTo pos (position (mesh (ts ! j))) < hitRadius (ts ! j) then Some j
     else hitIndex pos ts j)"

text \<open>
  Removing paintball \<open>i\<close>: \<open>scene.remove(b.mesh)\<close>, the two \<open>dispose\<close> calls and
  \<open>paintballs.splice(i, 1)\<close>.
\<close>

definition removePaintball :: "nat \<Rightarrow> unit paintball_scheme \<Rightarrow> state \<Rightarrow> state" where
  "removePaintball i b s =
    (let s1 = dispose (mid (mesh b)) (scene_remove (mid (mesh b)) s)
     in s1\<lparr>paintballs := splice i (paintballs s1)\<rparr>)"

text \<open>
  The body of the inner loop when target \<open>j\<close> is hit by paintball \<open>b\<close> at index \<open>i\<close>. The
  flash of the crosshair and the score text are display only and left out.
\<close>

definition hitTarget :: "nat \<Rightarrow> nat \<Rightarrow> unit paintball_scheme \<Rightarrow> state \<Rightarrow> state" where
  "hitTarget j i b s =
    (let target = targets s ! j;
         s1 = s\<lparr>score := score s + tscore target\<rparr>;
         s2 = createExplosion (position (mesh target)) (color b) s1;
         s3 = scene_remove (mid (mesh target)) s2;
         s4 = s3\<lparr>targets := splice j (targets s3)\<rparr>;
         s5 = pushTarget s4
     in removePaintball i b s5)"

text \<open>
  One round of the loop over \<open>paintballs\<close>, for index \<open>i\<close>. Reading \<open>paintballs[i]\<close>
  beyond the array gives \<open>undefined\<close> and the next line throws a TypeError: the result
  \<open>None\<close>. \<open>paintballs.indexOf(b) === -1\<close> asks whether the object \<open>b\<close> was spliced out,
  which only the hit branch of the inner loop does: it is the case \<open>Some j\<close>.
\<close>

definition paintballStep :: "raycaster \<Rightarrow> real \<Rightarrow> nat \<Rightarrow> state \<Rightarrow> state option" where
  "paintballStep rc delta i s =
    (if i < length (paintballs s) then
       (let b0 = paintballs s ! i;
            b1 = b0\<lparr>life := life b0 - delta\<rparr>;
            s1 = s\<lparr>paintballs := (paintballs s)[i := b1]\<rparr>
        in if life b1 \<le> 0 then Some (removePaintball i b1 s1)
           else
             (let oldPos = position (mesh b1);
                  b = b1\<lparr>mesh := (mesh b1)\<lparr>position :=
                         add oldPos (multiplyScalar (velocity b1) delta)\<rparr>\<rparr>;
                  s2 = s1\<lparr>paintballs := (paintballs s1)[i := b]\<rparr>
              in case hitIndex (position (mesh b)) (targets s2) (length (targets s2)) of
                   Some j \<Rightarrow> Some (hitTarget j i b s2)
                 | None \<Rightarrow>
                    (let dir = normalize (velocity b);
                         dist = distanceTo oldPos (position (mesh b));
                         intersects = rc (buildingMeshes s2 @ [ground s2]) oldPos dir dist
                     in case intersects of
                          h # _ \<Rightarrow> Some (removePaintball i b (addDecal h (color b) s2))
                        | [] \<Rightarrow>
                            if vy (position (mesh b)) < 0
                            then Some ((scene_remove (mid (mesh b)) s2)
                                         \<lparr>paintballs := splice i (paintballs s2)\<rparr>)
                            else Some s2)))
     else None)"

text \<open>The loop \<open>for (let i = paintballs.length - 1; i >= 0; i--)\<close>, started with
  \<open>n = paintballs.length\<close>.\<close>

fun paintballLoop :: "raycaster \<Rightarrow> real \<Rightarrow> nat \<Rightarrow> state \<Rightarrow> state option" where
  "paintballLoop rc delta 0 s = Some s"
| "paintballLoop rc delta (Suc i) s =
    (case paintballStep rc delta i s of
       None \<Rightarrow> None
     | Some s1 \<Rightarrow> paintballLoop rc delta i s1)"

definition updatePaintballs :: "raycaster \<Rightarrow> real \<Rightarrow> state \<Rightarrow> state option" where
  "updatePaintballs rc delta s = paintballLoop rc delta (length (paintballs s)) s"

subsection \<open>The frame update: camera\<close>

text \<open>
  \<open>camera.lookAt(target)\<close> turns the camera towards \<open>target\<close>: afterwards its world
  direction is the unit vector from its position to \<open>target\<close>. \<open>now\<close> is the value of
  \<open>Date.now()\<close>.
\<close>

definition lookAt :: "vec3 \<Rightarrow> camera \<Rightarrow> camera" where
  "lookAt tgt c =
     c\<lparr>cdirection := normalize (Vector3 (vx tgt - vx (cposition c)) (vy tgt - vy (cposition c))
                                      (vz tgt - vz (cposition c)))\<rparr>"

definition updateCamera :: "real \<Rightarrow> state \<Rightarrow> state" where
  "updateCamera now s =
    (let eyeHeight = 16 / 10;
         p = player s;
         targetPos = add (position (mesh p)) (Vector3 0 eyeHeight 0);
         time = now * (1 / 1000);
         cpos = (if focusMode s = broad
                 then Vector3 (vx targetPos + sin (time * (5 / 10)) * (2 / 100))
                              (vy targetPos + cos (time * (7 / 10)) * (15 / 1000))
                              (vz targetPos)
                 else targetPos);
         c1 = (cam s)\<lparr>cposition := cpos\<rparr>;
         lookDir = Vector3 (- sin (yaw p) * cos (pitch p)) (sin (pitch p))
                           (- cos (yaw p) * cos (pitch p))
     in s\<lparr>cam := lookAt (add (cposition c1) lookDir) c1\<rparr>)"

text \<open>\<open>update(delta)\<close>: the whole frame.\<close>

definition update :: "raycaster \<Rightarrow> real \<Rightarrow> real \<Rightarrow> state \<Rightarrow> state option" where
  "update rc now delta s =
    (case updatePaintballs rc delta (updateTargets delta (updatePlayer delta s)) of
       None \<Rightarrow> None
     | Some s1 \<Rightarrow> Some (updateCamera now s1))"

subsection \<open>The city and the initial state\<close>

text \<open>
  \<open>addBuilding\<close>: a box of height \<open>h\<close> standing on the ground, centred at \<open>(x, h / 2, z)\<close>.
  The canvas texture and its random numbers are not modelled.
\<close>

definition addBuilding :: "real \<Rightarrow> real \<Rightarrow> real \<Rightarrow> real \<Rightarrow> real \<Rightarrow> state \<Rightarrow> state" where
  "addBuilding x z w d h s =
    (let m = \<lparr>mid = next_id s, position = Vector3 x (h / 2) z\<rparr>;
         s1 = scene_add (mid m) (s\<lparr>next_id := Suc (next_id s)\<rparr>);
         buildingData = \<lparr>bmesh = m, bx = x, bz = z, bw = w, bd = d, bh = h\<rparr>
     in s1\<lparr>buildings := buildings s1 @ [buildingData],
           buildingMeshes := buildingMeshes s1 @ [m]\<rparr>)"

definition randomBuilding :: "state \<Rightarrow> state" where
  "randomBuilding s =
    (let x = (Math_random s 0 - 1 / 2) * 80;
         z = (Math_random s 1 - 1 / 2) * 80;
         w = 4 + Math_random s 2 * 8;
         d = 4 + Math_random s 3 * 8;
         h = 6 + Math_random s 4 * 18
     in addBuilding x z w d h (s\<lparr>rpos := rpos s + 5\<rparr>))"

text \<open>One step of a staircase, \<open>i\<close> of \<open>steps\<close>: a slab of height 0.3 whose centre is 0.15
  above the line from the start to the end.\<close>

definition addStep ::
  "real \<Rightarrow> real \<Rightarrow> real \<Rightarrow> real \<Rightarrow> real \<Rightarrow> real \<Rightarrow> int \<Rightarrow> nat \<Rightarrow> state \<Rightarrow> state" where
  "addStep startX startZ dx dz startHeight dh steps i s =
    (let t = real i / real_of_int steps;
         x = startX + dx * t;
         z = startZ + dz * t;
         y = startHeight + dh * t;
         step = \<lparr>mid = next_id s, position = Vector3 x (y + 15 / 100) z\<rparr>;
         s1 = scene_add (mid step) (s\<lparr>next_id := Suc (next_id s)\<rparr>)
     in s1\<lparr>buildingMeshes := buildingMeshes s1 @ [step]\<rparr>)"

definition addStairs ::
  "real \<Rightarrow> real \<Rightarrow> real \<Rightarrow> real \<Rightarrow> real \<Rightarrow> real \<Rightarrow> state \<Rightarrow> state" where
  "addStairs startX startZ endX endZ startHeight endHeight s =
    (let dx = endX - startX;
         dz = endZ - startZ;
         dh = endHeight - startHeight;
         distance = sqrt (dx * dx + dz * dz);
         steps = max 3 \<lfloor>distance / (15 / 10)\<rfloor>
     in fold (addStep startX startZ dx dz startHeight dh steps) [0..<Suc (nat steps)] s)"

definition addSimpleBridge :: "building \<Rightarrow> building \<Rightarrow> state \<Rightarrow> state" where
  "addSimpleBridge b1 b2 s =
    (let center1 = Vector3 (bx b1) (max (bh b1) (bh b2) - 1) (bz b1);
         center2 = Vector3 (bx b2) (max (bh b1) (bh b2) - 1) (bz b2);
         bridge = \<lparr>mid = next_id s,
                   position = multiplyScalar (add center1 center2) (5 / 10)\<rparr>;
         s1 = scene_add (mid bridge) (s\<lparr>next_id := Suc (next_id s)\<rparr>)
     in s1\<lparr>buildingMeshes := buildingMeshes s1 @ [bridge]\<rparr>)"

text \<open>The two loops \<open>for (let i = 0; i < buildings.length - 1; i += k)\<close> over pairs of
  neighbouring buildings, with \<open>k = 2\<close> for the stairs and \<open>k = 3\<close> for the bridges. The
  body runs \<open>if (b1 && b2)\<close>, when both buildings exist.\<close>

definition pairIndices :: "nat \<Rightarrow> state \<Rightarrow> nat list" where
  "pairIndices k s = filter (\<lambda>i. i mod k = 0) [0..<length (buildings s) - 1]"

definition stairsBetween :: "nat \<Rightarrow> state \<Rightarrow> state" where
  "stairsBetween i s =
    (if i + 1 < length (buildings s) then
       (let b1 = buildings s ! i; b2 = buildings s ! (i + 1)
        in addStairs (bx b1) (bz b1) (bx b2) (bz b2) (bh b1) (bh b2) s)
     else s)"

definition bridgeBetween :: "nat \<Rightarrow> state \<Rightarrow> state" where
  "bridgeBetween i s =
    (if i + 1 < length (buildings s)
     then addSimpleBridge (buildings s ! i) (buildings s ! (i + 1)) s
     else s)"

fun repeat :: "nat \<Rightarrow> (state \<Rightarrow> state) \<Rightarrow> state \<Rightarrow> state" where
  "repeat 0 f s = s"
| "repeat (Suc n) f s = repeat n f (f s)"

text \<open>
  The state before the first top-level statement that the model follows: an empty scene.
  The parameters are what the page and the browser supply: the random stream, the device
  pixel ratio, and the two DOM elements when present.
\<close>

definition blank :: "(nat \<Rightarrow> real) \<Rightarrow> real \<Rightarrow> string option \<Rightarrow> string option \<Rightarrow> state" where
  "blank r dpr fmEl vEl =
    \<lparr>next_id = 0, rnd = r, rpos = 0, scene = {}, disposed = {},
     ground = \<lparr>mid = 0, position = Vector3 0 0 0\<rparr>, buildings = [], buildingMeshes = [],
     player = \<lparr>mesh = \<lparr>mid = 0, position = Vector3 0 0 0\<rparr>, velocity = Vector3 0 0 0,
               onGround = False, yaw = 0, pitch = 0, rotation_y = 0, recoil = None, gun = None\<rparr>,
     isPointerLocked = False, mouseDeltaX = 0, mouseDeltaY = 0, keys = Map.empty,
     targets = [], paintballs = [], splatters = [], score = 0,
     focusMode = focused, focusModeEl = fmEl, vignetteEl = vEl, fovTarget = None,
     fog_near = 20, fog_far = 100, devicePixelRatio = dpr, pixelRatio = dpr,
     cam = \<lparr>cposition = Vector3 0 0 0, cdirection = Vector3 0 0 (- 1), fov = 45\<rparr>\<rparr>"

definition addLights :: "state \<Rightarrow> state" where
  "addLights s =
     scene_add (Suc (next_id s)) (scene_add (next_id s) (s\<lparr>next_id := next_id s + 2\<rparr>))"

definition addGround :: "state \<Rightarrow> state" where
  "addGround s =
    (let g = \<lparr>mid = next_id s, position = Vector3 0 0 0\<rparr>
     in (scene_add (mid g) (s\<lparr>next_id := Suc (next_id s)\<rparr>))\<lparr>ground := g\<rparr>)"

definition addPlayer :: "state \<Rightarrow> state" where
  "addPlayer s =
    (let playerMesh = \<lparr>mid = next_id s, position = Vector3 0 (playerHeight / 2) 0\<rparr>;
         s1 = scene_add (mid playerMesh) (s\<lparr>next_id := Suc (next_id s)\<rparr>)
     in s1\<lparr>player := (player s1)\<lparr>mesh := playerMesh\<rparr>\<rparr>)"

text \<open>The top-level statements of the module, in their order.\<close>

definition init :: "(nat \<Rightarrow> real) \<Rightarrow> real \<Rightarrow> string option \<Rightarrow> string option \<Rightarrow> state" where
  "init r dpr fmEl vEl =
    (let s1 = addGround (addLights (blank r dpr fmEl vEl));
         s2 = repeat 15 randomBuilding s1;
         s3 = fold stairsBetween (pairIndices 2 s2) s2;
         s4 = fold bridgeBetween (pairIndices 3 s3) s3;
         s5 = addPlayer s4;
         s6 = spawnTargets MAX_TARGETS s5
     in s6\<lparr>vignetteEl := map_option (\<lambda>_. ''focused'') (vignetteEl s6)\<rparr>)"

subsection \<open>Loader callbacks\<close>

text \<open>
  The callback of the soldier model: the capsule leaves the scene, the model (at the
  origin) becomes the player's mesh and carries the gun, whose \<open>position.z\<close> is 0.2 on the
  hand bone and 0.5 on the model root.
\<close>

definition modelLoaded :: "bool \<Rightarrow> state \<Rightarrow> state" where
  "modelLoaded rightHandBone s =
    (let s1 = scene_remove (mid (mesh (player s))) s;
         model = \<lparr>mid = next_id s1, position = Vector3 0 0 0\<rparr>;
         s2 = s1\<lparr>next_id := Suc (next_id s1)\<rparr>;
         s3 = s2\<lparr>player := (player s2)\<lparr>gun := Some (if rightHandBone then 2 / 10 else 5 / 10)\<rparr>\<rparr>;
         s4 = s3\<lparr>player := (player s3)\<lparr>mesh := model\<rparr>\<rparr>
     in scene_add (mid model) s4)"

text \<open>The callback of the file input: every mesh of the imported model (given by its
  position) joins \<open>buildingMeshes\<close>, and the model joins the scene.\<close>

definition importMesh :: "vec3 \<Rightarrow> state \<Rightarrow> state" where
  "importMesh pos s =
     s\<lparr>next_id := Suc (next_id s),
       buildingMeshes := buildingMeshes s @ [\<lparr>mid = next_id s, position = pos\<rparr>]\<rparr>"

definition fileLoaded :: "vec3 list \<Rightarrow> state \<Rightarrow> state" where
  "fileLoaded meshes s =
    (let model = next_id s;
         s1 = fold importMesh meshes (s\<lparr>next_id := Suc (next_id s)\<rparr>)
     in scene_add model s1)"

subsection \<open>Runs of the program\<close>

text \<open>
  What happens after the module is loaded is a sequence of events: the listeners, the
  loader callbacks, and the animation frame, which carries the values of \<open>Date.now()\<close>
  and \<open>clock.getDelta()\<close>. The listeners of \<open>click\<close>, \<open>contextmenu\<close> and \<open>resize\<close> and the
  timers of the field-of-view animation and of the crosshair flash write only what the
  renderer and the page show, and are left out.
\<close>

datatype event =
    PointerLockChange bool
  | MouseMove real real
  | KeyDown string
  | KeyUp string
  | MouseDown int
  | ModelLoaded bool
  | FileLoaded "vec3 list"
  | Frame real real

fun step :: "raycaster \<Rightarrow> event \<Rightarrow> state \<Rightarrow> state option" where
  "step rc (PointerLockChange locked) s = Some (pointerlockchange locked s)"
| "step rc (MouseMove movementX movementY) s = Some (mousemove movementX movementY s)"
| "step rc (KeyDown code) s = Some (keydown code s)"
| "step rc (KeyUp code) s = Some (keyup code s)"
| "step rc (MouseDown button) s = Some (mousedown button s)"
| "step rc (ModelLoaded rightHandBone) s = Some (modelLoaded rightHandBone s)"
| "step rc (FileLoaded meshes) s = Some (fileLoaded meshes s)"
| "step rc (Frame now delta) s = update rc now delta s"

fun run :: "raycaster \<Rightarrow> event list \<Rightarrow> state \<Rightarrow> state option" where
  "run rc [] s = Some s"
| "run rc (e # es) s = (case step rc e s of None \<Rightarrow> None | Some s1 \<Rightarrow> run rc es s1)"

subsection \<open>Notions used in the statements\<close>

text \<open>The fields the paintball loop leaves alone.\<close>

definition frameEq :: "state \<Rightarrow> state \<Rightarrow> bool" where
  "frameEq s s' =
    (rnd s' = rnd s \<and> ground s' = ground s \<and> buildings s' = buildings s
     \<and> buildingMeshes s' = buildingMeshes s \<and> player s' = player s
     \<and> isPointerLocked s' = isPointerLocked s \<and> mouseDeltaX s' = mouseDeltaX s
     \<and> mouseDeltaY s' = mouseDeltaY s \<and> keys s' = keys s \<and> focusMode s' = focusMode s
     \<and> focusModeEl s' = focusModeEl s \<and> vignetteEl s' = vignetteEl s
     \<and> fovTarget s' = fovTarget s \<and> fog_near s' = fog_near s \<and> fog_far s' = fog_far s
     \<and> devicePixelRatio s' = devicePixelRatio s \<and> pixelRatio s' = pixelRatio s
     \<and> cam s' = cam s)"

text \<open>The fields the player phase of a frame leaves alone.\<close>

definition sameWorld :: "state \<Rightarrow> state \<Rightarrow> bool" where
  "sameWorld s s' =
    (paintballs s' = paintballs s \<and> targets s' = targets s \<and> splatters s' = splatters s
     \<and> next_id s' = next_id s \<and> scene s' = scene s \<and> buildingMeshes s' = buildingMeshes s
     \<and> ground s' = ground s \<and> keys s' = keys s \<and> isPointerLocked s' = isPointerLocked s
     \<and> focusMode s' = focusMode s)"


text \<open>The vertical state of the player: height, vertical velocity, \<open>onGround\<close>; the
  horizontal state: position and velocity along x and z; and the view: yaw and pitch,
  with the mouse movement not yet applied.\<close>

definition vertical :: "state \<Rightarrow> real \<times> real \<times> bool" where
  "vertical s = (vy (position (mesh (player s))), vy (velocity (player s)), onGround (player s))"

definition horizontal :: "state \<Rightarrow> (real \<times> real) \<times> (real \<times> real)" where
  "horizontal s =
     ((vx (position (mesh (player s))), vz (position (mesh (player s)))),
      (vx (velocity (player s)), vz (velocity (player s))))"

definition view :: "state \<Rightarrow> (real \<times> real) \<times> (real \<times> real)" where
  "view s = ((yaw (player s), pitch (player s)), (mouseDeltaX s, mouseDeltaY s))"

text \<open>A paintball after a frame of flight: its life decreased by \<open>delta\<close>, its position
  advanced by its velocity times \<open>delta\<close>.\<close>

definition flown :: "real \<Rightarrow> unit paintball_scheme \<Rightarrow> unit paintball_scheme" where
  "flown delta b =
     b\<lparr>life := life b - delta,
       mesh := (mesh b)\<lparr>position := add (position (mesh b)) (multiplyScalar (velocity b) delta)\<rparr>\<rparr>"

text \<open>The intersections of the ray cast for paintball \<open>b\<close>: from its position before the
  move, along its normalized velocity, as far as it moves in the frame, against the
  building meshes and the ground.\<close>

definition rayHits :: "raycaster \<Rightarrow> real \<Rightarrow> state \<Rightarrow> unit paintball_scheme \<Rightarrow> hit list" where
  "rayHits rc delta s b =
     rc (buildingMeshes s @ [ground s]) (position (mesh b)) (normalize (velocity b))
        (distanceTo (position (mesh b)) (position (mesh (flown delta b))))"

text \<open>The identifiers of the paintball meshes; in a well-formed state they are distinct and
  were allocated before.\<close>

definition ids :: "state \<Rightarrow> nat list" where
  "ids s = map (mid \<circ> mesh) (paintballs s)"

definition wellFormed :: "state \<Rightarrow> bool" where
  "wellFormed s = (distinct (ids s) \<and> (\<forall>x \<in> set (ids s). x < next_id s))"

text \<open>The position a target drifts to in a frame, before the floor at height 2 is applied:
  the drift velocity times \<open>delta\<close>, and the vertical oscillation.\<close>

definition drifted :: "real \<Rightarrow> unit target_scheme \<Rightarrow> vec3" where
  "drifted delta t =
     Vector3 (vx (position (mesh t)) + vx (velocity t) * delta)
             (vy (position (mesh t)) + vy (velocity t) * delta
                + sin ((oscillation t + delta) * 2) * (1 / 2) * delta)
             (vz (position (mesh t)) + vz (velocity t) * delta)"

text \<open>The three arrays of game objects.\<close>

definition stock ::
  "state \<Rightarrow> unit target_scheme list \<times> unit paintball_scheme list \<times> splatter list" where
  "stock s = (targets s, paintballs s, splatters s)"

text \<open>What every event keeps: the number of targets, the bound on the splatters, and the
  distinct, already allocated identifiers of the paintballs.\<close>

definition keeps :: "state \<Rightarrow> state \<Rightarrow> bool" where
  "keeps s s' =
    (length (targets s') = length (targets s)
     \<and> (length (splatters s) \<le> 200 \<longrightarrow> length (splatters s') \<le> 200)
     \<and> (wellFormed s \<longrightarrow> wellFormed s'))"

text \<open>
  The events of a run that the program takes note of: a mouse movement that arrives
  while the pointer is not locked is dropped.
\<close>

fun lockedInput :: "raycaster \<Rightarrow> event list \<Rightarrow> state \<Rightarrow> event list" where
  "lockedInput rc [] s = []"
| "lockedInput rc (MouseMove movementX movementY # es) s =
     (if isPointerLocked s
      then MouseMove movementX movementY # lockedInput rc es (mousemove movementX movementY s)
      else lockedInput rc es s)"
| "lockedInput rc (e # es) s =
     (case step rc e s of None \<Rightarrow> e # es | Some s1 \<Rightarrow> e # lockedInput rc es s1)"

subsection \<open>Example states\<close>

text \<open>A raycaster that finds no intersection; the state before the city is built, with the
  player at the origin and not yet \<open>onGround\<close>; a player standing at rest on the roof of
  a building of height 10; and the same player with the pointer locked, looking along
  \<open>-z\<close>.\<close>

definition noHits :: raycaster where
  "noHits objs origin dir far = []"


definition rooftop :: state where
  "rooftop =
    (let s = addBuilding 0 0 4 4 10 (blank (\<lambda>_. 0) 1 None None)
     in s\<lparr>next_id := Suc (next_id s),
          player := (player s)\<lparr>mesh := \<lparr>mid = next_id s, position = Vector3 0 10 0\<rparr>,
                                onGround := True\<rparr>\<rparr>)"

definition lockedRoof :: state where
  "lockedRoof = rooftop\<lparr>isPointerLocked := True\<rparr>"

text \<open>A target beyond the bound of 50 that drifts below the floor, in a state without
  paintballs.\<close>

definition strayTarget :: "unit target_scheme" where
  "strayTarget = \<lparr>mesh = \<lparr>mid = 7, position = Vector3 60 1 0\<rparr>, velocity = Vector3 1 (- 1) 0,
                   hitRadius = 8 / 10, tscore = 10, oscillation = - 1\<rparr>"

definition strayState :: state where
  "strayState = rooftop\<lparr>next_id := 8, targets := [strayTarget]\<rparr>"

text \<open>A paintball, and a paintball about to expire; a state with the first, and a state
  with both.\<close>

definition ball :: "unit paintball_scheme" where
  "ball = \<lparr>mesh = \<lparr>mid = 3, position = Vector3 0 5 0\<rparr>, velocity = Vector3 0 0 (- 40),
           color = 0, life = 3\<rparr>"




text \<open>Two intersections, a wall 3 ahead of the example paintball and a second surface 4
  ahead, and the raycaster that finds them within the range of the ray.\<close>

definition wallHit :: hit where
  "wallHit = \<lparr>hpoint = Vector3 0 5 (- 3), hnormal = Vector3 0 0 1, hobject = 0, hdistance = 3\<rparr>"



text \<open>A state whose splatter array is full.\<close>

definition fullState :: state where
  "fullState = rooftop\<lparr>next_id := 300,
     splatters := map (\<lambda>n. \<lparr>smesh = 100 + n, sobject = 0, spoint = Vector3 0 0 0, ssize = 1,
                             scolor = 0\<rparr>) [0..<200]\<rparr>"

section \<open>Lemmas on the paintball loop\<close>

subsection \<open>Effects of the functions the loop calls\<close>

lemma frameEq_refl: "frameEq s s"
  by (simp add: frameEq_def)

lemma frameEq_trans: "frameEq s s1 \<Longrightarrow> frameEq s1 s2 \<Longrightarrow> frameEq s s2"
  by (simp add: frameEq_def)

lemmas prim_defs = scene_add_def scene_remove_def dispose_def Math_random_def

lemma addParticle_frame: "frameEq s (addParticle pos c s)"
  by (simp add: frameEq_def addParticle_def Let_def prim_defs)

lemma addParticle_fields:
  "next_id (addParticle pos c s) = Suc (next_id s)"
  "scene (addParticle pos c s) = insert (next_id s) (scene s)"
  "targets (addParticle pos c s) = targets s"
  "splatters (addParticle pos c s) = splatters s"
  "score (addParticle pos c s) = score s"
  by (simp_all add: addParticle_def Let_def prim_defs)

lemma addParticle_paintballs:
  "\<exists>p. paintballs (addParticle pos c s) = paintballs s @ [p]
       \<and> mid (mesh p) = next_id s \<and> life p = 1 / 2 \<and> color p = c \<and> position (mesh p) = pos"
  by (simp add: addParticle_def Let_def prim_defs)

lemma explosionLoop_frame: "frameEq s (explosionLoop n pos c s)"
proof (induction n arbitrary: s)
  case 0
  show ?case by (simp add: frameEq_refl)
next
  case (Suc n)
  show ?case
    using frameEq_trans [OF addParticle_frame Suc.IH] by simp
qed

lemma explosionLoop_fields:
  "next_id (explosionLoop n pos c s) = next_id s + n"
  "targets (explosionLoop n pos c s) = targets s"
  "splatters (explosionLoop n pos c s) = splatters s"
  "score (explosionLoop n pos c s) = score s"
  by (induction n arbitrary: s; simp add: addParticle_fields)+

lemma explosionLoop_scene:
  "scene (explosionLoop n pos c s) = scene s \<union> {next_id s ..< next_id s + n}"
  by (induction n arbitrary: s) (auto simp: addParticle_fields)

lemma explosionLoop_paintballs:
  "\<exists>ps. paintballs (explosionLoop n pos c s) = paintballs s @ ps
       \<and> map (mid \<circ> mesh) ps = [next_id s ..< next_id s + n]
       \<and> (\<forall>p \<in> set ps. life p = 1 / 2)"
proof (induction n arbitrary: s)
  case 0
  show ?case by simp
next
  case (Suc n)
  obtain p where p: "paintballs (addParticle pos c s) = paintballs s @ [p]"
    "mid (mesh p) = next_id s" "life p = 1 / 2"
    using addParticle_paintballs by blast
  obtain ps where ps: "paintballs (explosionLoop n pos c (addParticle pos c s))
       = paintballs (addParticle pos c s) @ ps"
    "map (mid \<circ> mesh) ps = [next_id (addParticle pos c s) ..< next_id (addParticle pos c s) + n]"
    "\<forall>q \<in> set ps. life q = 1 / 2"
    using Suc.IH [of "addParticle pos c s"] by blast
  have "paintballs (explosionLoop (Suc n) pos c s) = paintballs s @ (p # ps)"
    using p ps by simp
  moreover have "map (mid \<circ> mesh) (p # ps) = [next_id s ..< next_id s + Suc n]"
    using p ps(2) by (simp add: upt_conv_Cons addParticle_fields del: upt_Suc)
  moreover have "\<forall>q \<in> set (p # ps). life q = 1 / 2"
    using p ps by simp
  ultimately show ?case by blast
qed

lemma createExplosion_frame: "frameEq s (createExplosion pos c s)"
  by (simp add: createExplosion_def explosionLoop_frame)

lemma createTarget_snd_fields:
  "next_id (snd (createTarget s)) = Suc (next_id s)"
  "scene (snd (createTarget s)) = insert (next_id s) (scene s)"
  "paintballs (snd (createTarget s)) = paintballs s"
  "targets (snd (createTarget s)) = targets s"
  "splatters (snd (createTarget s)) = splatters s"
  "frameEq s (snd (createTarget s))"
  by (simp_all add: createTarget_def Let_def prim_defs frameEq_def)

lemma pushTarget_fields:
  "next_id (pushTarget s) = Suc (next_id s)"
  "scene (pushTarget s) = insert (next_id s) (scene s)"
  "paintballs (pushTarget s) = paintballs s"
  "length (targets (pushTarget s)) = Suc (length (targets s))"
  "splatters (pushTarget s) = splatters s"
  "frameEq s (pushTarget s)"
  by (simp_all add: pushTarget_def createTarget_def Let_def prim_defs frameEq_def)

lemma addDecal_fields:
  "next_id (addDecal h c s) = Suc (next_id s)"
  "paintballs (addDecal h c s) = paintballs s"
  "targets (addDecal h c s) = targets s"
  "frameEq s (addDecal h c s)"
  by (simp_all add: addDecal_def Let_def prim_defs frameEq_def)

lemma addDecal_scene: "scene (addDecal h c s) \<subseteq> insert (next_id s) (scene s)"
  by (auto simp: addDecal_def Let_def prim_defs)

lemma addDecal_splatters:
  "splatters (addDecal h c s) =
     (let xs = splatters s @ [\<lparr>smesh = next_id s, sobject = hobject h, spoint = hpoint h,
                 ssize = 1 + rnd s (rpos s) * (15 / 10), scolor = c\<rparr>]
      in if length xs > 200 then tl xs else xs)"
  by (simp add: addDecal_def Let_def prim_defs)

lemma addDecal_length:
  "length (splatters s) \<le> 200 \<Longrightarrow> length (splatters (addDecal h c s)) \<le> 200"
  by (simp add: addDecal_splatters Let_def)

lemma removePaintball_fields:
  "next_id (removePaintball i b s) = next_id s"
  "scene (removePaintball i b s) = scene s - {mid (mesh b)}"
  "paintballs (removePaintball i b s) = splice i (paintballs s)"
  "targets (removePaintball i b s) = targets s"
  "splatters (removePaintball i b s) = splatters s"
  "frameEq s (removePaintball i b s)"
  by (simp_all add: removePaintball_def Let_def prim_defs frameEq_def)

lemma length_splice: "j < length xs \<Longrightarrow> length (splice j xs) = length xs - 1"
  by (simp add: splice_def)

lemma hitIndex_less: "hitIndex pos ts n = Some j \<Longrightarrow> j < n"
  by (induction n) (auto split: if_splits)

lemma hitTarget_frame: "frameEq s (hitTarget j i b s)"
proof -
  have "frameEq s (s\<lparr>score := score s + tscore (targets s ! j)\<rparr>)"
    by (simp add: frameEq_def)
  then have 1: "frameEq s (createExplosion (position (mesh (targets s ! j))) (color b)
      (s\<lparr>score := score s + tscore (targets s ! j)\<rparr>))" (is "frameEq s ?s2")
    using createExplosion_frame frameEq_trans by blast
  have "frameEq ?s2 ((scene_remove (mid (mesh (targets s ! j))) ?s2)
         \<lparr>targets := splice j (targets (scene_remove (mid (mesh (targets s ! j))) ?s2))\<rparr>)"
    (is "frameEq ?s2 ?s4")
    by (simp add: frameEq_def prim_defs)
  then have "frameEq s ?s4" using 1 frameEq_trans by blast
  then have "frameEq s (pushTarget ?s4)" using pushTarget_fields(6) frameEq_trans by blast
  then have "frameEq s (removePaintball i b (pushTarget ?s4))"
    using removePaintball_fields(6) frameEq_trans by blast
  then show ?thesis by (simp add: hitTarget_def Let_def)
qed

lemma hitTarget_fields:
  "next_id (hitTarget j i b s) = next_id s + 21"
  "splatters (hitTarget j i b s) = splatters s"
  "j < length (targets s) \<Longrightarrow> length (targets (hitTarget j i b s)) = length (targets s)"
  by (simp_all add: hitTarget_def Let_def removePaintball_fields pushTarget_fields
        createExplosion_def explosionLoop_fields particleCount_def prim_defs length_splice)

lemma hitTarget_scene:
  "scene (hitTarget j i b s) \<subseteq> (scene s \<union> {next_id s ..< next_id s + 21}) - {mid (mesh b)}"
  by (auto simp: hitTarget_def Let_def removePaintball_fields pushTarget_fields
        createExplosion_def explosionLoop_fields explosionLoop_scene particleCount_def prim_defs)

lemma hitTarget_paintballs:
  "\<exists>ps. paintballs (hitTarget j i b s) = splice i (paintballs s @ ps)
       \<and> map (mid \<circ> mesh) ps = [next_id s ..< next_id s + 20]
       \<and> (\<forall>p \<in> set ps. life p = 1 / 2)"
proof -
  let ?s1 = "s\<lparr>score := score s + tscore (targets s ! j)\<rparr>"
  obtain ps where ps: "paintballs (explosionLoop 20 (position (mesh (targets s ! j))) (color b) ?s1)
      = paintballs ?s1 @ ps" "map (mid \<circ> mesh) ps = [next_id ?s1 ..< next_id ?s1 + 20]"
     "\<forall>p \<in> set ps. life p = 1 / 2"
    using explosionLoop_paintballs by blast
  have "paintballs (hitTarget j i b s) = splice i (paintballs s @ ps)"
    using ps(1)
    by (simp add: hitTarget_def Let_def removePaintball_fields pushTarget_fields
        createExplosion_def particleCount_def prim_defs)
  then show ?thesis using ps(2,3) by auto
qed

subsection \<open>A round of the loop\<close>

lemma flown_simps:
  "life (flown d b) = life b - d"
  "mid (mesh (flown d b)) = mid (mesh b)"
  "velocity (flown d b) = velocity b"
  "color (flown d b) = color b"
  "position (mesh (flown d b)) = add (position (mesh b)) (multiplyScalar (velocity b) d)"
  by (simp_all add: flown_def)

lemma splice_update: "i < length xs \<Longrightarrow> splice i (xs[i := b]) = take i xs @ drop (Suc i) xs"
  by (simp add: splice_def)

lemma splice_update_append:
  "i < length xs \<Longrightarrow> splice i (xs[i := b] @ ps) = take i xs @ drop (Suc i) xs @ ps"
  by (simp add: splice_def)

lemma update_as_append: "i < length xs \<Longrightarrow> xs[i := b] = take i xs @ b # drop (Suc i) xs"
  by (simp add: upd_conv_take_nth_drop)

lemma paintballStep_None: "paintballStep rc d i s = None \<longleftrightarrow> \<not> i < length (paintballs s)"
  by (simp add: paintballStep_def Let_def split: option.splits list.splits)

text \<open>The five ways a round of the loop ends.\<close>

lemma paintballStep_unfold:
  assumes "i < length (paintballs s)"
  shows "paintballStep rc d i s = Some
    (let b0 = paintballs s ! i; b = flown d b0; s2 = s\<lparr>paintballs := (paintballs s)[i := b]\<rparr>
     in if life b \<le> 0 then removePaintball i b0 (s\<lparr>paintballs := (paintballs s)[i := b0\<lparr>life := life b0 - d\<rparr>]\<rparr>)
        else case hitIndex (position (mesh b)) (targets s) (length (targets s)) of
               Some j \<Rightarrow> hitTarget j i b s2
             | None \<Rightarrow> (case rayHits rc d s b0 of
                    h # _ \<Rightarrow> removePaintball i b (addDecal h (color b) s2)
                  | [] \<Rightarrow> if vy (position (mesh b)) < 0
                          then (scene_remove (mid (mesh b)) s2)\<lparr>paintballs := splice i (paintballs s2)\<rparr>
                          else s2))"
  using assms
  by (simp add: paintballStep_def Let_def flown_def rayHits_def removePaintball_def
      split: option.splits list.splits)

lemma paintballStep_cases [consumes 1, case_names expired target splat ground fly]:
  assumes "paintballStep rc d i s = Some s'"
  obtains
    (expired) "i < length (paintballs s)" "life (flown d (paintballs s ! i)) \<le> 0"
      "s' = removePaintball i (paintballs s ! i)
              (s\<lparr>paintballs := (paintballs s)[i := (paintballs s ! i)\<lparr>life := life (paintballs s ! i) - d\<rparr>]\<rparr>)"
  | (target) j where "i < length (paintballs s)" "0 < life (flown d (paintballs s ! i))"
      "hitIndex (position (mesh (flown d (paintballs s ! i)))) (targets s) (length (targets s)) = Some j"
      "s' = hitTarget j i (flown d (paintballs s ! i))
              (s\<lparr>paintballs := (paintballs s)[i := flown d (paintballs s ! i)]\<rparr>)"
  | (splat) h hs where "i < length (paintballs s)" "0 < life (flown d (paintballs s ! i))"
      "hitIndex (position (mesh (flown d (paintballs s ! i)))) (targets s) (length (targets s)) = None"
      "rayHits rc d s (paintballs s ! i) = h # hs"
      "s' = removePaintball i (flown d (paintballs s ! i))
              (addDecal h (color (paintballs s ! i))
                 (s\<lparr>paintballs := (paintballs s)[i := flown d (paintballs s ! i)]\<rparr>))"
  | (ground) "i < length (paintballs s)" "0 < life (flown d (paintballs s ! i))"
      "hitIndex (position (mesh (flown d (paintballs s ! i)))) (targets s) (length (targets s)) = None"
      "rayHits rc d s (paintballs s ! i) = []"
      "vy (position (mesh (flown d (paintballs s ! i)))) < 0"
      "s' = s\<lparr>scene := scene s - {mid (mesh (paintballs s ! i))},
               paintballs := take i (paintballs s) @ drop (Suc i) (paintballs s)\<rparr>"
  | (fly) "i < length (paintballs s)" "0 < life (flown d (paintballs s ! i))"
      "hitIndex (position (mesh (flown d (paintballs s ! i)))) (targets s) (length (targets s)) = None"
      "rayHits rc d s (paintballs s ! i) = []"
      "\<not> vy (position (mesh (flown d (paintballs s ! i)))) < 0"
      "s' = s\<lparr>paintballs := (paintballs s)[i := flown d (paintballs s ! i)]\<rparr>"
proof -
  have i: "i < length (paintballs s)"
    using assms paintballStep_None [of rc d i s] by auto
  let ?old = "paintballs s ! i"
  let ?new = "flown d ?old"
  note u = assms [unfolded paintballStep_unfold [OF i] Let_def]
  show thesis
  proof (cases "life ?new \<le> 0")
    case True
    then show thesis using u i expired by simp
  next
    case alive: False
    show thesis
    proof (cases "hitIndex (position (mesh ?new)) (targets s) (length (targets s))")
      case (Some j)
      then show thesis using u i alive target by simp
    next
      case None
      show thesis
      proof (cases "rayHits rc d s ?old")
        case (Cons h hs)
        then show thesis using u i alive None splat by (simp add: flown_simps)
      next
        case Nil
        show thesis
        proof (cases "vy (position (mesh ?new)) < 0")
          case True
          then show thesis
            using u i alive None Nil ground
            by (simp add: scene_remove_def splice_update flown_simps)
        next
          case False
          then show thesis using u i alive None Nil fly by simp
        qed
      qed
    qed
  qed
qed

lemma paintballStep_frame:
  assumes "paintballStep rc d i s = Some s'"
  shows "frameEq s s'"
proof -
  have f2: "frameEq s (s\<lparr>paintballs := xs\<rparr>)" for xs
    by (simp add: frameEq_def)
  from assms show ?thesis
  proof (cases rule: paintballStep_cases)
    case expired
    show ?thesis unfolding expired(3)
      by (rule frameEq_trans [OF f2 removePaintball_fields(6)])
  next
    case (target j)
    show ?thesis unfolding target(4)
      by (rule frameEq_trans [OF f2 hitTarget_frame])
  next
    case (splat h hs)
    show ?thesis unfolding splat(5)
      by (rule frameEq_trans [OF frameEq_trans [OF f2 addDecal_fields(4)] removePaintball_fields(6)])
  next
    case ground
    show ?thesis unfolding ground(6) by (simp add: frameEq_def)
  next
    case fly
    show ?thesis unfolding fly(6) by (rule f2)
  qed
qed

lemma paintballStep_targets:
  assumes "paintballStep rc d i s = Some s'"
  shows "length (targets s') = length (targets s)"
  using assms
proof (cases rule: paintballStep_cases)
  case expired
  show ?thesis unfolding expired(3) by (simp add: removePaintball_fields)
next
  case (target j)
  show ?thesis unfolding target(4)
    using hitIndex_less [OF target(3)] by (simp add: hitTarget_fields)
next
  case (splat h hs)
  show ?thesis unfolding splat(5) by (simp add: removePaintball_fields addDecal_fields)
next
  case ground
  show ?thesis unfolding ground(6) by simp
next
  case fly
  show ?thesis unfolding fly(6) by simp
qed

lemma paintballStep_splatters:
  assumes "paintballStep rc d i s = Some s'" "length (splatters s) \<le> 200"
  shows "length (splatters s') \<le> 200"
  using assms(1)
proof (cases rule: paintballStep_cases)
  case expired
  show ?thesis unfolding expired(3) using assms(2) by (simp add: removePaintball_fields)
next
  case (target j)
  show ?thesis unfolding target(4) using assms(2) by (simp add: hitTarget_fields)
next
  case (splat h hs)
  have "length (splatters (addDecal h (color (paintballs s ! i))
      (s\<lparr>paintballs := (paintballs s)[i := flown d (paintballs s ! i)]\<rparr>))) \<le> 200"
    using assms(2) by (intro addDecal_length) simp
  then show ?thesis unfolding splat(5) by (simp add: removePaintball_fields)
next
  case ground
  show ?thesis unfolding ground(6) using assms(2) by simp
next
  case fly
  show ?thesis unfolding fly(6) using assms(2) by simp
qed

lemma paintballStep_grow:
  assumes "paintballStep rc d i s = Some s'"
  shows "next_id s \<le> next_id s' \<and> scene s' \<subseteq> scene s \<union> {next_id s ..< next_id s'}"
  using assms
proof (cases rule: paintballStep_cases)
  case expired
  show ?thesis unfolding expired(3) by (auto simp: removePaintball_fields)
next
  case (target j)
  let ?s2 = "s\<lparr>paintballs := (paintballs s)[i := flown d (paintballs s ! i)]\<rparr>"
  have "scene (hitTarget j i (flown d (paintballs s ! i)) ?s2)
          \<subseteq> scene s \<union> {next_id s ..< next_id s + 21}"
    using hitTarget_scene [of j i "flown d (paintballs s ! i)" ?s2] by auto
  then show ?thesis unfolding target(4) by (simp add: hitTarget_fields)
next
  case (splat h hs)
  let ?s2 = "s\<lparr>paintballs := (paintballs s)[i := flown d (paintballs s ! i)]\<rparr>"
  have "scene (addDecal h (color (paintballs s ! i)) ?s2) \<subseteq> insert (next_id s) (scene s)"
    using addDecal_scene [of h "color (paintballs s ! i)" ?s2] by simp
  then show ?thesis unfolding splat(5)
    by (auto simp: removePaintball_fields addDecal_fields)
next
  case ground
  show ?thesis unfolding ground(6) by auto
next
  case fly
  show ?thesis unfolding fly(6) by simp
qed

lemma paintballStep_list [consumes 1, case_names removed kept exploded]:
  assumes "paintballStep rc d i s = Some s'"
  obtains
    (removed) "i < length (paintballs s)"
      "paintballs s' = take i (paintballs s) @ drop (Suc i) (paintballs s)"
      "mid (mesh (paintballs s ! i)) \<notin> scene s'"
      "0 < life (flown d (paintballs s ! i)) \<Longrightarrow> rayHits rc d s (paintballs s ! i) = []
         \<Longrightarrow> vy (position (mesh (flown d (paintballs s ! i)))) < 0"
  | (kept) "i < length (paintballs s)"
      "paintballs s' = take i (paintballs s) @ flown d (paintballs s ! i) # drop (Suc i) (paintballs s)"
      "0 < life (flown d (paintballs s ! i))"
      "rayHits rc d s (paintballs s ! i) = []"
      "\<not> vy (position (mesh (flown d (paintballs s ! i)))) < 0"
  | (exploded) ps where "i < length (paintballs s)"
      "paintballs s' = take i (paintballs s) @ drop (Suc i) (paintballs s) @ ps"
      "map (mid \<circ> mesh) ps = [next_id s ..< next_id s + 20]"
      "\<forall>p \<in> set ps. life p = 1 / 2"
      "mid (mesh (paintballs s ! i)) \<notin> scene s'"
      "0 < life (flown d (paintballs s ! i))"
      "next_id s' = next_id s + 21"
  using assms
proof (cases rule: paintballStep_cases)
  case expired
  have "paintballs s' = take i (paintballs s) @ drop (Suc i) (paintballs s)"
    unfolding expired(3) using expired(1) by (simp add: removePaintball_fields splice_update)
  moreover have "mid (mesh (paintballs s ! i)) \<notin> scene s'"
    unfolding expired(3) by (simp add: removePaintball_fields)
  ultimately show ?thesis using removed expired(1,2) by simp
next
  case (target j)
  let ?s2 = "s\<lparr>paintballs := (paintballs s)[i := flown d (paintballs s ! i)]\<rparr>"
  obtain ps where ps: "paintballs (hitTarget j i (flown d (paintballs s ! i)) ?s2)
       = splice i (paintballs ?s2 @ ps)"
     "map (mid \<circ> mesh) ps = [next_id ?s2 ..< next_id ?s2 + 20]" "\<forall>p \<in> set ps. life p = 1 / 2"
    using hitTarget_paintballs by blast
  have 1: "mid (mesh (paintballs s ! i)) \<notin> scene s'"
    unfolding target(4)
    using hitTarget_scene [of j i "flown d (paintballs s ! i)" ?s2]
    by (auto simp: flown_simps)
  have 2: "paintballs s' = take i (paintballs s) @ drop (Suc i) (paintballs s) @ ps"
    unfolding target(4) ps(1) using target(1) by (simp add: splice_update_append)
  have 3: "map (mid \<circ> mesh) ps = [next_id s ..< next_id s + 20]"
    using ps(2) by simp
  have 4: "next_id s' = next_id s + 21"
    unfolding target(4) by (simp add: hitTarget_fields)
  show ?thesis
    by (rule exploded [OF target(1) 2 3 ps(3) 1 target(2) 4])
next
  case (splat h hs)
  have "paintballs s' = take i (paintballs s) @ drop (Suc i) (paintballs s)"
    unfolding splat(5) using splat(1)
    by (simp add: removePaintball_fields addDecal_fields splice_update)
  moreover have "mid (mesh (paintballs s ! i)) \<notin> scene s'"
    unfolding splat(5) by (simp add: removePaintball_fields flown_simps)
  ultimately show ?thesis using removed splat(1,4) by simp
next
  case ground
  have "paintballs s' = take i (paintballs s) @ drop (Suc i) (paintballs s)"
    unfolding ground(6) by simp
  moreover have "mid (mesh (paintballs s ! i)) \<notin> scene s'"
    unfolding ground(6) by simp
  ultimately show ?thesis using removed ground(1,5) by simp
next
  case fly
  have "paintballs s' = take i (paintballs s) @ flown d (paintballs s ! i) # drop (Suc i) (paintballs s)"
    unfolding fly(6) using fly(1) by (simp add: update_as_append)
  then show ?thesis using kept fly(1,2,4,5) by simp
qed

lemma paintballStep_length:
  assumes "paintballStep rc d i s = Some s'"
  shows "i \<le> length (paintballs s')" "take i (paintballs s') = take i (paintballs s)"
proof -
  have "i \<le> length (paintballs s') \<and> take i (paintballs s') = take i (paintballs s)"
    using assms
  proof (cases rule: paintballStep_list)
    case removed
    show ?thesis unfolding removed(2) using removed(1) by simp
  next
    case kept
    show ?thesis unfolding kept(2) using kept(1) by simp
  next
    case (exploded ps)
    show ?thesis unfolding exploded(2) using exploded(1) by simp
  qed
  then show "i \<le> length (paintballs s')" "take i (paintballs s') = take i (paintballs s)"
    by simp_all
qed

lemma paintballStep_Some: "i < length (paintballs s) \<Longrightarrow> \<exists>s'. paintballStep rc d i s = Some s'"
  using paintballStep_None [of rc d i s] by (cases "paintballStep rc d i s") auto

subsection \<open>The whole loop\<close>

text \<open>The loop never reads beyond the array.\<close>

lemma paintballLoop_total:
  "n \<le> length (paintballs s) \<Longrightarrow> \<exists>s'. paintballLoop rc d n s = Some s'"
proof (induction n arbitrary: s)
  case 0
  show ?case by simp
next
  case (Suc n)
  then obtain s1 where s1: "paintballStep rc d n s = Some s1"
    using paintballStep_Some [of n s rc d] by auto
  have "n \<le> length (paintballs s1)"
    by (rule paintballStep_length(1) [OF s1])
  then obtain s' where "paintballLoop rc d n s1 = Some s'"
    using Suc.IH by blast
  then show ?case using s1 by simp
qed

lemma paintballLoop_Suc:
  assumes "paintballLoop rc d (Suc n) s = Some s'"
  obtains s1 where "paintballStep rc d n s = Some s1" "paintballLoop rc d n s1 = Some s'"
  using assms by (cases "paintballStep rc d n s") auto

lemma paintballLoop_frame: "paintballLoop rc d n s = Some s' \<Longrightarrow> frameEq s s'"
proof (induction n arbitrary: s)
  case 0
  then show ?case by (simp add: frameEq_refl)
next
  case (Suc n)
  from Suc.prems obtain s1 where s1: "paintballStep rc d n s = Some s1"
      "paintballLoop rc d n s1 = Some s'"
    by (rule paintballLoop_Suc)
  show ?case
    by (rule frameEq_trans [OF paintballStep_frame [OF s1(1)] Suc.IH [OF s1(2)]])
qed

lemma paintballLoop_targets:
  "paintballLoop rc d n s = Some s' \<Longrightarrow> length (targets s') = length (targets s)"
proof (induction n arbitrary: s)
  case 0
  then show ?case by simp
next
  case (Suc n)
  from Suc.prems obtain s1 where s1: "paintballStep rc d n s = Some s1"
      "paintballLoop rc d n s1 = Some s'"
    by (rule paintballLoop_Suc)
  show ?case
    using paintballStep_targets [OF s1(1)] Suc.IH [OF s1(2)] by simp
qed

lemma paintballLoop_splatters:
  "paintballLoop rc d n s = Some s' \<Longrightarrow> length (splatters s) \<le> 200
     \<Longrightarrow> length (splatters s') \<le> 200"
proof (induction n arbitrary: s)
  case 0
  then show ?case by simp
next
  case (Suc n)
  from Suc.prems(1) obtain s1 where s1: "paintballStep rc d n s = Some s1"
      "paintballLoop rc d n s1 = Some s'"
    by (rule paintballLoop_Suc)
  show ?case
    by (rule Suc.IH [OF s1(2) paintballStep_splatters [OF s1(1) Suc.prems(2)]])
qed

lemma paintballLoop_next_id:
  "paintballLoop rc d n s = Some s' \<Longrightarrow> next_id s \<le> next_id s'"
proof (induction n arbitrary: s)
  case 0
  then show ?case by simp
next
  case (Suc n)
  from Suc.prems(1) obtain s1 where s1: "paintballStep rc d n s = Some s1"
      "paintballLoop rc d n s1 = Some s'"
    by (rule paintballLoop_Suc)
  show ?case
    using paintballStep_grow [OF s1(1)] Suc.IH [OF s1(2)] by simp
qed

subsection \<open>Identifiers, and the fate of each paintball\<close>


lemma distinct_splice:
  assumes "distinct xs"
  shows "distinct (take i xs @ drop (Suc i) xs)"
proof -
  have "distinct (take i xs @ drop i xs)" using assms by simp
  then have "distinct (take i xs)" "distinct (drop i xs)" "set (take i xs) \<inter> set (drop i xs) = {}"
    by (simp_all only: distinct_append) 
  moreover have "set (drop (Suc i) xs) \<subseteq> set (drop i xs)"
    by (simp add: set_drop_subset_set_drop)
  moreover have "distinct (drop (Suc i) xs)" using assms by simp
  ultimately show ?thesis by auto
qed

text \<open>The identifiers in the array after a round.\<close>

lemma paintballStep_ids [consumes 1, case_names removed kept exploded]:
  assumes "paintballStep rc d i s = Some s'"
  obtains
    (removed) "i < length (ids s)" "ids s' = take i (ids s) @ drop (Suc i) (ids s)"
      "ids s ! i \<notin> scene s'"
  | (kept) "i < length (ids s)" "ids s' = ids s" "flown d (paintballs s ! i) \<in> set (drop i (paintballs s'))"
      "0 < life (flown d (paintballs s ! i))"
      "rayHits rc d s (paintballs s ! i) = []"
      "\<not> vy (position (mesh (flown d (paintballs s ! i)))) < 0"
  | (exploded) "i < length (ids s)"
      "ids s' = take i (ids s) @ drop (Suc i) (ids s) @ [next_id s ..< next_id s + 20]"
      "ids s ! i \<notin> scene s'" "next_id s' = next_id s + 21"
  using assms
proof (cases rule: paintballStep_list)
  case removed
  have "ids s' = take i (ids s) @ drop (Suc i) (ids s)"
    unfolding ids_def removed(2) by (simp add: take_map drop_map)
  moreover have "ids s ! i \<notin> scene s'"
    using removed(1,3) by (simp add: ids_def)
  ultimately show ?thesis using that(1) removed(1) by (simp add: ids_def)
next
  case kept
  have "ids s' = take i (ids s) @ ids s ! i # drop (Suc i) (ids s)"
    unfolding ids_def kept(2) using kept(1) by (simp add: take_map drop_map flown_simps)
  then have 1: "ids s' = ids s"
    using kept(1) id_take_nth_drop [of i "ids s"] by (simp add: ids_def)
  have 2: "flown d (paintballs s ! i) \<in> set (drop i (paintballs s'))"
    unfolding kept(2) using kept(1) by simp
  show ?thesis using that(2) kept 1 2 by (simp add: ids_def)
next
  case (exploded ps)
  have "ids s' = take i (ids s) @ drop (Suc i) (ids s) @ [next_id s ..< next_id s + 20]"
    unfolding ids_def exploded(2) using exploded(3) by (simp add: take_map drop_map)
  moreover have "ids s ! i \<notin> scene s'"
    using exploded(1,5) by (simp add: ids_def)
  ultimately show ?thesis using that(3) exploded(1,7) by (simp add: ids_def)
qed

lemma paintballStep_wellFormed:
  assumes "paintballStep rc d i s = Some s'" "wellFormed s"
  shows "wellFormed s'"
proof -
  have dist: "distinct (ids s)" and bound: "\<forall>x \<in> set (ids s). x < next_id s"
    using assms(2) by (simp_all add: wellFormed_def)
  have le: "next_id s \<le> next_id s'"
    using paintballStep_grow [OF assms(1)] by simp
  have sub: "set (take i (ids s) @ drop (Suc i) (ids s)) \<subseteq> set (ids s)"
    using set_take_subset [of i "ids s"] set_drop_subset [of "Suc i" "ids s"] by auto
  from assms(1) show ?thesis
  proof (cases rule: paintballStep_ids)
    case removed
    show ?thesis unfolding wellFormed_def removed(2)
      using distinct_splice [OF dist, of i] sub bound le by fastforce
  next
    case kept
    show ?thesis unfolding wellFormed_def kept(2)
      using dist bound le by fastforce
  next
    case exploded
    have "distinct (take i (ids s) @ drop (Suc i) (ids s) @ [next_id s ..< next_id s + 20])"
      using distinct_splice [OF dist, of i] sub bound by fastforce
    moreover have "\<forall>x \<in> set (take i (ids s) @ drop (Suc i) (ids s) @ [next_id s ..< next_id s + 20]).
        x < next_id s'"
      using sub bound exploded(4) by fastforce
    ultimately show ?thesis unfolding wellFormed_def exploded(2) by blast
  qed
qed


lemma paintballLoop_wellFormed:
  "paintballLoop rc d n s = Some s' \<Longrightarrow> wellFormed s \<Longrightarrow> wellFormed s'"
proof (induction n arbitrary: s)
  case 0
  then show ?case by simp
next
  case (Suc n)
  from Suc.prems(1) obtain s1 where s1: "paintballStep rc d n s = Some s1"
      "paintballLoop rc d n s1 = Some s'"
    by (rule paintballLoop_Suc)
  show ?case
    by (rule Suc.IH [OF s1(2) paintballStep_wellFormed [OF s1(1) Suc.prems(2)]])
qed










section \<open>Lemmas on the frame, the listeners and runs\<close>

subsection \<open>The player phase\<close>

lemma sameWorld_trans: "sameWorld s s1 \<Longrightarrow> sameWorld s1 s2 \<Longrightarrow> sameWorld s s2"
  by (simp add: sameWorld_def)

lemma phases_sameWorld:
  "sameWorld s (mouseLook s)"
  "sameWorld s (moveKeys s)"
  "sameWorld s (jump s)"
  "sameWorld s (applyGravity delta s)"
  "sameWorld s (integratePosition delta s)"
  "sameWorld s (groundCollision s)"
  "sameWorld s (faceYaw s)"
  "sameWorld s (gunRecoil delta s)"
  by (simp_all add: sameWorld_def mouseLook_def moveKeys_def jump_def applyGravity_def
        integratePosition_def groundCollision_def faceYaw_def gunRecoil_def Let_def
        split: option.splits)

lemma updatePlayer_sameWorld: "sameWorld s (updatePlayer delta s)"
proof -
  note t = sameWorld_trans
  have "sameWorld s (jump (moveKeys (mouseLook s)))"
    by (rule t [OF t [OF phases_sameWorld(1) phases_sameWorld(2)] phases_sameWorld(3)])
  then have "sameWorld s (integratePosition delta (applyGravity delta (jump (moveKeys (mouseLook s)))))"
    by (rule t [OF t [OF _ phases_sameWorld(4)] phases_sameWorld(5)])
  then have "sameWorld s (faceYaw (groundCollision (integratePosition delta
       (applyGravity delta (jump (moveKeys (mouseLook s)))))))"
    by (rule t [OF t [OF _ phases_sameWorld(6)] phases_sameWorld(7)])
  then show ?thesis unfolding updatePlayer_def
    by (rule t [OF _ phases_sameWorld(8)])
qed

lemma vertical_phases:
  "vertical (mouseLook s) = vertical s"
  "vertical (moveKeys s) = vertical s"
  "vertical (jump s) =
     (if pressed s ''Space'' \<and> onGround (player s)
      then (vy (position (mesh (player s))), 12, False) else vertical s)"
  "vertical (applyGravity delta s) =
     (vy (position (mesh (player s))), vy (velocity (player s)) - 30 * delta, onGround (player s))"
  "vertical (integratePosition delta s) =
     (vy (position (mesh (player s))) + vy (velocity (player s)) * delta,
      vy (velocity (player s)), onGround (player s))"
  "vertical (groundCollision s) =
     (if vy (position (mesh (player s))) < 0 then (0, 0, True) else vertical s)"
  "vertical (faceYaw s) = vertical s"
  "vertical (gunRecoil delta s) = vertical s"
  by (simp_all add: vertical_def mouseLook_def moveKeys_def jump_def applyGravity_def
        integratePosition_def groundCollision_def faceYaw_def gunRecoil_def Let_def
        split: option.splits)

lemma pressed_sameWorld: "sameWorld s s' \<Longrightarrow> pressed s' code = pressed s code"
  by (simp add: sameWorld_def pressed_def)

lemma vertical_updatePlayer:
  "vertical (updatePlayer delta s) =
    (let jumping = (pressed s ''Space'' \<and> onGround (player s));
         v1 = (if jumping then 12 else vy (velocity (player s))) - 30 * delta;
         y1 = vy (position (mesh (player s))) + v1 * delta
     in if y1 < 0 then (0, 0, True) else (y1, v1, onGround (player s) \<and> \<not> jumping))"
proof -
  let ?a = "moveKeys (mouseLook s)"
  have a: "vertical ?a = vertical s"
    by (simp add: vertical_phases)
  have p: "pressed ?a ''Space'' = pressed s ''Space''"
    by (rule pressed_sameWorld [OF sameWorld_trans [OF phases_sameWorld(1) phases_sameWorld(2)]])
  have og: "onGround (player ?a) = onGround (player s)"
     and y: "vy (position (mesh (player ?a))) = vy (position (mesh (player s)))"
     and v: "vy (velocity (player ?a)) = vy (velocity (player s))"
    using a by (simp_all add: vertical_def)
  let ?jumping = "pressed s ''Space'' \<and> onGround (player s)"
  let ?v0 = "if ?jumping then 12 else vy (velocity (player s))"
  have j: "vertical (jump ?a) = (vy (position (mesh (player s))), ?v0, onGround (player s) \<and> \<not> ?jumping)"
    unfolding vertical_phases(3) p og y by (simp add: vertical_def v og y)
  let ?b = "jump ?a"
  have jb: "vy (position (mesh (player ?b))) = vy (position (mesh (player s)))"
      "vy (velocity (player ?b)) = ?v0" "onGround (player ?b) = (onGround (player s) \<and> \<not> ?jumping)"
    using j unfolding vertical_def by simp_all
  have g: "vertical (applyGravity delta ?b)
      = (vy (position (mesh (player s))), ?v0 - 30 * delta, onGround (player s) \<and> \<not> ?jumping)"
    unfolding vertical_phases(4) jb by simp
  let ?c = "applyGravity delta ?b"
  have gc: "vy (position (mesh (player ?c))) = vy (position (mesh (player s)))"
      "vy (velocity (player ?c)) = ?v0 - 30 * delta"
      "onGround (player ?c) = (onGround (player s) \<and> \<not> ?jumping)"
    using g unfolding vertical_def by simp_all
  have i: "vertical (integratePosition delta ?c)
      = (vy (position (mesh (player s))) + (?v0 - 30 * delta) * delta, ?v0 - 30 * delta,
         onGround (player s) \<and> \<not> ?jumping)"
    unfolding vertical_phases(5) gc by simp
  let ?d = "integratePosition delta ?c"
  have ic: "vy (position (mesh (player ?d))) = vy (position (mesh (player s))) + (?v0 - 30 * delta) * delta"
    using i unfolding vertical_def by simp
  have "vertical (updatePlayer delta s) = vertical (groundCollision ?d)"
    unfolding updatePlayer_def by (simp only: vertical_phases(7,8))
  also have "\<dots> = (if vy (position (mesh (player s))) + (?v0 - 30 * delta) * delta < 0
      then (0, 0, True)
      else (vy (position (mesh (player s))) + (?v0 - 30 * delta) * delta, ?v0 - 30 * delta,
         onGround (player s) \<and> \<not> ?jumping))"
    unfolding vertical_phases(6) ic i by simp
  finally show ?thesis by (simp add: Let_def)
qed

subsection \<open>The frame as a whole\<close>

lemma driftTargets_map: "driftTargets delta ts = map (driftTarget delta) ts"
  by (induction ts) simp_all

lemma updateTargets_fields:
  "player (updateTargets delta s) = player s"
  "paintballs (updateTargets delta s) = paintballs s"
  "next_id (updateTargets delta s) = next_id s"
  "scene (updateTargets delta s) = scene s"
  "splatters (updateTargets delta s) = splatters s"
  "buildingMeshes (updateTargets delta s) = buildingMeshes s"
  "ground (updateTargets delta s) = ground s"
  "isPointerLocked (updateTargets delta s) = isPointerLocked s"
  "mouseDeltaX (updateTargets delta s) = mouseDeltaX s"
  "mouseDeltaY (updateTargets delta s) = mouseDeltaY s"
  "targets (updateTargets delta s) = map (driftTarget delta) (targets s)"
  by (simp_all add: updateTargets_def driftTargets_map)

lemma updateCamera_fields:
  "player (updateCamera now s) = player s"
  "paintballs (updateCamera now s) = paintballs s"
  "next_id (updateCamera now s) = next_id s"
  "scene (updateCamera now s) = scene s"
  "splatters (updateCamera now s) = splatters s"
  "targets (updateCamera now s) = targets s"
  "isPointerLocked (updateCamera now s) = isPointerLocked s"
  "mouseDeltaX (updateCamera now s) = mouseDeltaX s"
  "mouseDeltaY (updateCamera now s) = mouseDeltaY s"
  by (simp_all add: updateCamera_def Let_def)

text \<open>A frame never fails: it is the player phase, the target phase, the paintball loop
  over the whole array, and the camera.\<close>

lemma update_obtain:
  obtains s1 where
    "paintballLoop rc delta (length (paintballs s)) (updateTargets delta (updatePlayer delta s)) = Some s1"
    "update rc now delta s = Some (updateCamera now s1)"
proof -
  let ?s0 = "updateTargets delta (updatePlayer delta s)"
  have len: "paintballs ?s0 = paintballs s"
    using updatePlayer_sameWorld [of s delta] by (simp add: updateTargets_fields sameWorld_def)
  then obtain s1 where s1: "paintballLoop rc delta (length (paintballs s)) ?s0 = Some s1"
    using paintballLoop_total [of "length (paintballs s)" ?s0 rc delta] by auto
  then have "update rc now delta s = Some (updateCamera now s1)"
    by (simp add: update_def updatePaintballs_def len)
  then show thesis using that s1 by blast
qed

lemma update_player:
  assumes "update rc now delta s = Some s'"
  shows "player s' = player (updatePlayer delta s)"
proof -
  obtain s1 where s1:
    "paintballLoop rc delta (length (paintballs s)) (updateTargets delta (updatePlayer delta s)) = Some s1"
    "update rc now delta s = Some (updateCamera now s1)"
    by (rule update_obtain)
  have "player s1 = player (updateTargets delta (updatePlayer delta s))"
    using paintballLoop_frame [OF s1(1)] by (simp add: frameEq_def)
  then have "player (updateCamera now s1) = player (updatePlayer delta s)"
    by (simp add: updateCamera_fields updateTargets_fields)
  moreover have "s' = updateCamera now s1" using assms s1(2) by simp
  ultimately show ?thesis by simp
qed




lemma horizontal_phases:
  "fst (horizontal (mouseLook s)) = fst (horizontal s)"
  "fst (horizontal (moveKeys s)) = fst (horizontal s)"
  "horizontal (jump s) = horizontal s"
  "horizontal (applyGravity delta s) = horizontal s"
  "horizontal (integratePosition delta s) =
     ((vx (position (mesh (player s))) + vx (velocity (player s)) * delta,
       vz (position (mesh (player s))) + vz (velocity (player s)) * delta),
      snd (horizontal s))"
  "horizontal (groundCollision s) = horizontal s"
  "horizontal (faceYaw s) = horizontal s"
  "horizontal (gunRecoil delta s) = horizontal s"
  by (simp_all add: horizontal_def mouseLook_def moveKeys_def jump_def applyGravity_def
        integratePosition_def groundCollision_def faceYaw_def gunRecoil_def Let_def
        split: option.splits)

lemma horizontal_updatePlayer:
  "vx (position (mesh (player (updatePlayer delta s))))
     = vx (position (mesh (player s))) + vx (velocity (player (updatePlayer delta s))) * delta"
  "vz (position (mesh (player (updatePlayer delta s))))
     = vz (position (mesh (player s))) + vz (velocity (player (updatePlayer delta s))) * delta"
proof -
  let ?a = "moveKeys (mouseLook s)"
  let ?c = "applyGravity delta (jump ?a)"
  have a: "fst (horizontal ?a) = fst (horizontal s)"
    by (simp add: horizontal_phases)
  have c: "horizontal ?c = horizontal ?a"
    by (simp add: horizontal_phases)
  have "horizontal (updatePlayer delta s) = horizontal (integratePosition delta ?c)"
    unfolding updatePlayer_def by (simp only: horizontal_phases(6,7,8))
  also have "\<dots> = ((fst (fst (horizontal ?c)) + fst (snd (horizontal ?c)) * delta,
                      snd (fst (horizontal ?c)) + snd (snd (horizontal ?c)) * delta),
                     snd (horizontal ?c))"
    unfolding horizontal_phases(5) by (simp add: horizontal_def)
  finally have e: "horizontal (updatePlayer delta s)
      = ((fst (fst (horizontal s)) + fst (snd (horizontal ?a)) * delta,
          snd (fst (horizontal s)) + snd (snd (horizontal ?a)) * delta),
         snd (horizontal ?a))"
    unfolding c using a by simp
  have v: "snd (horizontal (updatePlayer delta s)) = snd (horizontal ?a)"
    using e by simp
  have "fst (horizontal (updatePlayer delta s))
      = (fst (fst (horizontal s)) + fst (snd (horizontal (updatePlayer delta s))) * delta,
         snd (fst (horizontal s)) + snd (snd (horizontal (updatePlayer delta s))) * delta)"
    unfolding v using e by simp
  then show "vx (position (mesh (player (updatePlayer delta s))))
     = vx (position (mesh (player s))) + vx (velocity (player (updatePlayer delta s))) * delta"
   "vz (position (mesh (player (updatePlayer delta s))))
     = vz (position (mesh (player s))) + vz (velocity (player (updatePlayer delta s))) * delta"
    by (simp_all add: horizontal_def)
qed

lemma view_phases:
  "\<not> isPointerLocked s \<Longrightarrow> mouseLook s = s"
  "view (moveKeys s) = view s"
  "view (jump s) = view s"
  "view (applyGravity delta s) = view s"
  "view (integratePosition delta s) = view s"
  "view (groundCollision s) = view s"
  "view (faceYaw s) = view s"
  "view (gunRecoil delta s) = view s"
  by (simp_all add: view_def mouseLook_def moveKeys_def jump_def applyGravity_def
        integratePosition_def groundCollision_def faceYaw_def gunRecoil_def Let_def
        split: option.splits)

lemma view_updatePlayer: "\<not> isPointerLocked s \<Longrightarrow> view (updatePlayer delta s) = view s"
  unfolding updatePlayer_def by (simp add: view_phases)

lemma update_view:
  assumes "update rc now delta s = Some s'" "\<not> isPointerLocked s"
  shows "view s' = view s"
proof -
  obtain s1 where s1:
    "paintballLoop rc delta (length (paintballs s)) (updateTargets delta (updatePlayer delta s)) = Some s1"
    "update rc now delta s = Some (updateCamera now s1)"
    by (rule update_obtain)
  have s': "s' = updateCamera now s1" using assms(1) s1(2) by simp
  have "mouseDeltaX s1 = mouseDeltaX (updatePlayer delta s)"
       "mouseDeltaY s1 = mouseDeltaY (updatePlayer delta s)"
       "player s1 = player (updatePlayer delta s)"
    using paintballLoop_frame [OF s1(1)] by (simp_all add: frameEq_def updateTargets_fields)
  then have "view s' = view (updatePlayer delta s)"
    unfolding s' by (simp add: view_def updateCamera_fields)
  then show ?thesis using view_updatePlayer [OF assms(2)] by simp
qed

lemma run_lockedInput: "run rc (lockedInput rc evs s) s = run rc evs s"
proof (induction rc evs s rule: lockedInput.induct)
  case (1 rc s)
  show ?case by simp
next
  case (2 rc movementX movementY es s)
  then show ?case by (simp add: mousemove_def)
qed (simp_all split: option.splits)

lemma rooftop_view:
  "\<not> isPointerLocked rooftop" "yaw (player rooftop) = 0" "pitch (player rooftop) = 0"
  by (simp_all add: rooftop_def addBuilding_def blank_def scene_add_def Let_def)

subsection \<open>Targets\<close>




lemma stray_facts:
  "paintballs strayState = []" "targets strayState = [strayTarget]"
  "drifted 1 strayTarget = Vector3 61 0 0"
  "vlength (Vector3 61 0 0) > 50"
  "velocity strayTarget = Vector3 1 (- 1) 0"
  by (simp_all add: strayState_def strayTarget_def rooftop_def addBuilding_def blank_def
        scene_add_def Let_def drifted_def vlength_def lengthSq_def real_less_rsqrt)

subsection \<open>Vectors and shooting\<close>

lemma multiplyScalar_one: "multiplyScalar v 1 = v"
  by (cases v) (simp add: multiplyScalar_def)

lemma vlength_multiplyScalar: "vlength (multiplyScalar v k) = \<bar>k\<bar> * vlength v"
proof -
  have "lengthSq (multiplyScalar v k) = k\<^sup>2 * lengthSq v"
    by (simp add: lengthSq_def multiplyScalar_def power2_eq_square algebra_simps)
  then show ?thesis
    by (simp add: vlength_def real_sqrt_mult)
qed

lemma lengthSq_nonneg: "0 \<le> lengthSq v"
  by (simp add: lengthSq_def)

lemma vlength_zero_iff: "vlength v = 0 \<longleftrightarrow> v = Vector3 0 0 0"
proof -
  have "lengthSq v = 0 \<longleftrightarrow> vx v = 0 \<and> vy v = 0 \<and> vz v = 0"
    unfolding lengthSq_def
    by (metis add_nonneg_eq_0_iff mult_eq_0_iff zero_le_square add_nonneg_nonneg)
  then show ?thesis by (cases v) (simp add: vlength_def)
qed

lemma vlength_normalize: "v \<noteq> Vector3 0 0 0 \<Longrightarrow> vlength (normalize v) = 1"
proof -
  assume "v \<noteq> Vector3 0 0 0"
  then have nz: "vlength v \<noteq> 0" by (simp add: vlength_zero_iff)
  have "0 \<le> vlength v" by (simp add: vlength_def lengthSq_nonneg)
  then have pos: "0 < vlength v" using nz by simp
  show ?thesis
    unfolding normalize_def vlength_multiplyScalar using pos by simp
qed

lemma shootPaintball_paintballs:
  "paintballs (shootPaintball s) = paintballs s @
     [\<lparr>mesh = \<lparr>mid = next_id s,
                position = add (add (position (mesh (player s)))
                                    (Vector3 0 (playerHeight * (7 / 10)) 0))
                               (normalize (getWorldDirection (cam s)))\<rparr>,
       velocity = multiplyScalar (normalize (getWorldDirection (cam s))) 40,
       color = Math_random s 0, life = 3\<rparr>]"
  by (simp add: shootPaintball_def Let_def scene_add_def multiplyScalar_one)

lemma shootPaintball_fields:
  "scene (shootPaintball s) = insert (next_id s) (scene s)"
  "next_id (shootPaintball s) = Suc (next_id s)"
  "targets (shootPaintball s) = targets s"
  "splatters (shootPaintball s) = splatters s"
  by (simp_all add: shootPaintball_def Let_def scene_add_def)

lemma lockedRoof_facts:
  "isPointerLocked lockedRoof" "paintballs lockedRoof = []" "next_id lockedRoof = 2"
  "position (mesh (player lockedRoof)) = Vector3 0 10 0"
  "getWorldDirection (cam lockedRoof) = Vector3 0 0 (- 1)"
  "Math_random lockedRoof 0 = 0"
  by (simp_all add: lockedRoof_def rooftop_def addBuilding_def blank_def scene_add_def Let_def
        getWorldDirection_def Math_random_def)

lemma normalize_back: "normalize (Vector3 0 0 (- 1)) = Vector3 0 0 (- 1)"
  by (simp add: normalize_def vlength_def lengthSq_def multiplyScalar_def)

subsection \<open>The initial state and runs\<close>

lemma fold_stock:
  assumes "\<And>x s. stock (f x s) = stock s"
  shows "stock (fold f xs s) = stock s"
  by (induction xs arbitrary: s) (simp_all add: assms)

lemma repeat_stock:
  assumes "\<And>s. stock (f s) = stock s"
  shows "stock (repeat n f s) = stock s"
  by (induction n arbitrary: s) (simp_all add: assms)

lemma city_stock:
  "stock (addLights s) = stock s"
  "stock (addGround s) = stock s"
  "stock (addBuilding x z w dd h s) = stock s"
  "stock (addStep startX startZ dx dz startHeight dh steps i s) = stock s"
  "stock (addSimpleBridge b1 b2 s) = stock s"
  "stock (addPlayer s) = stock s"
  by (simp_all add: stock_def addLights_def addGround_def addBuilding_def addStep_def
        addSimpleBridge_def addPlayer_def scene_add_def Let_def)

lemma city_stock2:
  "stock (randomBuilding s) = stock s"
  "stock (addStairs startX startZ endX endZ startHeight endHeight s) = stock s"
  "stock (stairsBetween i s) = stock s"
  "stock (bridgeBetween i s) = stock s"
proof -
  show "stock (randomBuilding s) = stock s"
    unfolding randomBuilding_def Let_def city_stock(3) by (simp add: stock_def)
  show a: "stock (addStairs startX startZ endX endZ startHeight endHeight s) = stock s"
    for startX startZ endX endZ startHeight endHeight
    unfolding addStairs_def Let_def by (rule fold_stock) (rule city_stock(4))
  show "stock (stairsBetween i s) = stock s"
    by (simp add: stairsBetween_def Let_def a)
  show "stock (bridgeBetween i s) = stock s"
    by (simp add: bridgeBetween_def city_stock(5))
qed

lemma spawnTargets_stock:
  "length (targets (spawnTargets n s)) = length (targets s) + n"
  "paintballs (spawnTargets n s) = paintballs s"
  "splatters (spawnTargets n s) = splatters s"
  by (induction n arbitrary: s; simp add: pushTarget_fields)+

lemma init_stock:
  "length (targets (init r dpr fmEl vEl)) = MAX_TARGETS"
  "paintballs (init r dpr fmEl vEl) = []"
  "splatters (init r dpr fmEl vEl) = []"
proof -
  let ?s1 = "addGround (addLights (blank r dpr fmEl vEl))"
  let ?s2 = "repeat 15 randomBuilding ?s1"
  let ?s3 = "fold stairsBetween (pairIndices 2 ?s2) ?s2"
  let ?s4 = "fold bridgeBetween (pairIndices 3 ?s3) ?s3"
  have "stock (blank r dpr fmEl vEl) = ([], [], [])"
    by (simp add: stock_def blank_def)
  then have "stock ?s1 = ([], [], [])"
    by (simp add: city_stock)
  then have "stock ?s2 = ([], [], [])"
    using repeat_stock [of randomBuilding 15 ?s1] city_stock2(1) by simp
  then have "stock ?s3 = ([], [], [])"
    using fold_stock [of stairsBetween "pairIndices 2 ?s2" ?s2] city_stock2(3) by simp
  then have "stock ?s4 = ([], [], [])"
    using fold_stock [of bridgeBetween "pairIndices 3 ?s3" ?s3] city_stock2(4) by simp
  then have "stock (addPlayer ?s4) = ([], [], [])"
    by (simp add: city_stock)
  then have e: "targets (addPlayer ?s4) = []" "paintballs (addPlayer ?s4) = []"
      "splatters (addPlayer ?s4) = []"
    by (simp_all add: stock_def)
  show "length (targets (init r dpr fmEl vEl)) = MAX_TARGETS"
    unfolding init_def Let_def by (simp add: spawnTargets_stock e)
  show "paintballs (init r dpr fmEl vEl) = []"
    unfolding init_def Let_def by (simp add: spawnTargets_stock e)
  show "splatters (init r dpr fmEl vEl) = []"
    unfolding init_def Let_def by (simp add: spawnTargets_stock e)
qed

lemma keeps_refl: "keeps s s"
  by (simp add: keeps_def)

lemma keeps_trans: "keeps s s1 \<Longrightarrow> keeps s1 s2 \<Longrightarrow> keeps s s2"
  by (simp add: keeps_def)

lemma keeps_stock:
  assumes "stock s' = stock s" "next_id s \<le> next_id s'"
  shows "keeps s s'"
proof -
  have e: "targets s' = targets s" "paintballs s' = paintballs s" "splatters s' = splatters s"
    using assms(1) by (simp_all add: stock_def)
  have "wellFormed s'" if "wellFormed s"
    using that assms(2) unfolding wellFormed_def ids_def e by fastforce
  then show ?thesis by (simp add: keeps_def e)
qed

lemma importMesh_fold:
  "stock (fold importMesh ms s) = stock s \<and> next_id s \<le> next_id (fold importMesh ms s)"
proof (induction ms arbitrary: s)
  case Nil
  show ?case by simp
next
  case (Cons m ms)
  have "stock (importMesh m s) = stock s" "next_id s \<le> next_id (importMesh m s)"
    by (simp_all add: importMesh_def stock_def)
  then show ?case using Cons [of "importMesh m s"] by simp
qed

lemma listeners_keep:
  "keeps s (pointerlockchange locked s)"
  "keeps s (mousemove movementX movementY s)"
  "keeps s (keydown code s)"
  "keeps s (keyup code s)"
  "keeps s (modelLoaded rightHandBone s)"
  "keeps s (fileLoaded ms s)"
proof -
  show "keeps s (pointerlockchange locked s)"
    by (rule keeps_stock) (simp_all add: pointerlockchange_def stock_def)
  show "keeps s (mousemove movementX movementY s)"
    by (rule keeps_stock) (simp_all add: mousemove_def stock_def)
  show "keeps s (keydown code s)"
    by (rule keeps_stock)
       (simp_all add: keydown_def toggleFocusMode_def animateFOV_def Let_def stock_def)
  show "keeps s (keyup code s)"
    by (rule keeps_stock) (simp_all add: keyup_def stock_def)
  show "keeps s (modelLoaded rightHandBone s)"
    by (rule keeps_stock)
       (simp_all add: modelLoaded_def scene_add_def scene_remove_def Let_def stock_def)
  show "keeps s (fileLoaded ms s)"
  proof (rule keeps_stock)
    let ?t = "s\<lparr>next_id := Suc (next_id s)\<rparr>"
    have "stock (fold importMesh ms ?t) = stock ?t" "next_id ?t \<le> next_id (fold importMesh ms ?t)"
      using importMesh_fold [of ms ?t] by simp_all
    then show "stock (fileLoaded ms s) = stock s" "next_id s \<le> next_id (fileLoaded ms s)"
      by (simp_all add: fileLoaded_def Let_def scene_add_def stock_def)
  qed
qed

lemma mousedown_keeps: "keeps s (mousedown button s)"
proof (cases "button = 0 \<and> isPointerLocked s")
  case False
  then have "mousedown button s = s" by (auto simp: mousedown_def)
  then show ?thesis by (simp add: keeps_refl)
next
  case True
  have "ids (shootPaintball s) = ids s @ [next_id s]"
    by (simp add: ids_def shootPaintball_paintballs)
  then have "wellFormed (shootPaintball s)" if "wellFormed s"
    using that unfolding wellFormed_def by (fastforce simp: shootPaintball_fields)
  then show ?thesis using True
    by (simp add: mousedown_def keeps_def shootPaintball_fields)
qed

lemma update_keeps:
  assumes "update rc now delta s = Some s'"
  shows "keeps s s'"
proof -
  let ?s0 = "updateTargets delta (updatePlayer delta s)"
  obtain s1 where s1:
    "paintballLoop rc delta (length (paintballs s)) ?s0 = Some s1"
    "update rc now delta s = Some (updateCamera now s1)"
    by (rule update_obtain)
  have s': "s' = updateCamera now s1" using assms s1(2) by simp
  have e: "paintballs ?s0 = paintballs s" "next_id ?s0 = next_id s"
      "splatters ?s0 = splatters s" "length (targets ?s0) = length (targets s)"
    using updatePlayer_sameWorld [of s delta] by (simp_all add: updateTargets_fields sameWorld_def)
  have w0: "wellFormed ?s0" if "wellFormed s"
    using that unfolding wellFormed_def ids_def e .
  have "length (targets s1) = length (targets s)"
    using paintballLoop_targets [OF s1(1)] e(4) by simp
  moreover have "length (splatters s1) \<le> 200" if "length (splatters s) \<le> 200"
    using paintballLoop_splatters [OF s1(1)] that e(3) by simp
  moreover have "wellFormed s1" if "wellFormed s"
    using paintballLoop_wellFormed [OF s1(1) w0 [OF that]] .
  moreover have "wellFormed (updateCamera now s1) = wellFormed s1"
    by (simp add: wellFormed_def ids_def updateCamera_fields)
  ultimately show ?thesis unfolding s' keeps_def by (simp add: updateCamera_fields)
qed

lemma step_total: "\<exists>s'. step rc e s = Some s'"
proof (cases e)
  case (Frame now delta)
  then show ?thesis using update_obtain [of rc delta s now] by auto
qed simp_all

lemma step_keeps: "step rc e s = Some s' \<Longrightarrow> keeps s s'"
  by (cases e) (auto simp: listeners_keep mousedown_keeps update_keeps)

text \<open>A run never fails, and keeps what each event keeps.\<close>

lemma run_keeps: "\<exists>s'. run rc evs s = Some s' \<and> keeps s s'"
proof (induction evs arbitrary: s)
  case Nil
  show ?case by (simp add: keeps_refl)
next
  case (Cons e evs)
  obtain s1 where s1: "step rc e s = Some s1" using step_total by blast
  obtain s' where s': "run rc evs s1 = Some s'" "keeps s1 s'" using Cons by blast
  have "keeps s s'" using keeps_trans [OF step_keeps [OF s1] s'(2)] .
  then show ?case using s1 s'(1) by simp
qed

subsection \<open>Hits, decals and the paintballs after a frame\<close>

lemma hitTarget_targets:
  "\<exists>t. targets (hitTarget j i b s) = splice j (targets s) @ [t]
       \<and> mid (mesh t) = next_id s + 20"
  by (simp add: hitTarget_def Let_def removePaintball_def pushTarget_def createTarget_def
        createExplosion_def explosionLoop_fields particleCount_def scene_add_def
        scene_remove_def dispose_def)

lemma addDecal_oldest:
  assumes "200 \<le> length (splatters s)"
  shows "smesh (hd (splatters s)) \<notin> scene (addDecal h c s)"
    "smesh (hd (splatters s)) \<in> disposed (addDecal h c s)"
proof -
  have "splatters s \<noteq> []" using assms by auto
  then have "hd (splatters s @ [m]) = hd (splatters s)" for m by simp
  then show "smesh (hd (splatters s)) \<notin> scene (addDecal h c s)"
    "smesh (hd (splatters s)) \<in> disposed (addDecal h c s)"
    using assms
    by (simp_all add: addDecal_def Let_def scene_add_def scene_remove_def dispose_def)
qed

lemma fullState_facts:
  "length (splatters fullState) = 200"
  "smesh (hd (splatters fullState)) = 100"
  by (simp_all add: fullState_def upt_conv_Cons)








section \<open>The claims\<close>

subsection \<open>C1: the player is supported by the ground only\<close>




subsection \<open>C2: raycast hits on the world\<close>



subsection \<open>C3: gravity and the ground\<close>

text \<open>
  C3. Gravity is applied in every frame: the vertical velocity (12 when the frame starts a
  jump) decreases by \<open>30 * delta\<close>, the position advances by the new velocity times
  \<open>delta\<close>, and a height below 0 is clamped to 0 with the vertical velocity set to 0 and
  the player marked \<open>onGround\<close>. A frame always completes.
\<close>

theorem gravity_update:
  "\<exists>s'. update rc now delta s = Some s' \<and>
     vx (position (mesh (player s')))
       = vx (position (mesh (player s))) + vx (velocity (player s')) * delta \<and>
     vz (position (mesh (player s')))
       = vz (position (mesh (player s))) + vz (velocity (player s')) * delta \<and>
     (let p = player s;
          jumping = (pressed s ''Space'' \<and> onGround p);
          v1 = (if jumping then 12 else vy (velocity p)) - 30 * delta;
          y1 = vy (position (mesh p)) + v1 * delta
      in if y1 < 0
         then vy (position (mesh (player s'))) = 0 \<and> vy (velocity (player s')) = 0
              \<and> onGround (player s')
         else vy (position (mesh (player s'))) = y1 \<and> vy (velocity (player s')) = v1
              \<and> onGround (player s') = (onGround p \<and> \<not> jumping))"
proof -
  obtain s1 where s1:
    "paintballLoop rc delta (length (paintballs s)) (updateTargets delta (updatePlayer delta s)) = Some s1"
    "update rc now delta s = Some (updateCamera now s1)"
    by (rule update_obtain)
  have p: "player (updateCamera now s1) = player (updatePlayer delta s)"
    by (rule update_player [OF s1(2)])
  have v: "vertical (updateCamera now s1) = vertical (updatePlayer delta s)"
    by (simp add: vertical_def p)
  have h: "vx (position (mesh (player (updateCamera now s1))))
       = vx (position (mesh (player s))) + vx (velocity (player (updateCamera now s1))) * delta"
     "vz (position (mesh (player (updateCamera now s1))))
       = vz (position (mesh (player s))) + vz (velocity (player (updateCamera now s1))) * delta"
    unfolding p by (rule horizontal_updatePlayer)+
  have "let p = player s;
          jumping = (pressed s ''Space'' \<and> onGround p);
          v1 = (if jumping then 12 else vy (velocity p)) - 30 * delta;
          y1 = vy (position (mesh p)) + v1 * delta
      in if y1 < 0
         then vy (position (mesh (player (updateCamera now s1)))) = 0
              \<and> vy (velocity (player (updateCamera now s1))) = 0
              \<and> onGround (player (updateCamera now s1))
         else vy (position (mesh (player (updateCamera now s1)))) = y1
              \<and> vy (velocity (player (updateCamera now s1))) = v1
              \<and> onGround (player (updateCamera now s1)) = (onGround p \<and> \<not> jumping)"
    using v [unfolded vertical_updatePlayer]
    by (auto simp: vertical_def Let_def split: if_splits)
  then show ?thesis using s1(2) h by blast
qed

subsection \<open>C4: the life of a paintball\<close>



subsection \<open>C5: target drift\<close>



subsection \<open>C6: firing\<close>

text \<open>
  C6. A press of the left button (button 0) while the pointer is locked adds exactly one
  paintball at the end of the array and its mesh to the scene: it starts at the player's
  position raised by \<open>0.7 * playerHeight\<close> and moved by 1 along the camera's world
  direction, and its velocity is that direction scaled to length 40. Without pointer lock,
  or with another button, the press changes nothing.
\<close>

theorem left_click_shoots:
  "(isPointerLocked s \<longrightarrow>
      paintballs (mousedown 0 s) = paintballs s @
        [\<lparr>mesh = \<lparr>mid = next_id s,
                   position = add (add (position (mesh (player s)))
                                       (Vector3 0 (7 / 10 * playerHeight) 0))
                                  (normalize (getWorldDirection (cam s)))\<rparr>,
          velocity = multiplyScalar (normalize (getWorldDirection (cam s))) 40,
          color = Math_random s 0, life = 3\<rparr>]
      \<and> length (paintballs (mousedown 0 s)) = Suc (length (paintballs s))
      \<and> scene (mousedown 0 s) = insert (next_id s) (scene s)
      \<and> (getWorldDirection (cam s) \<noteq> Vector3 0 0 0 \<longrightarrow>
            vlength (velocity (last (paintballs (mousedown 0 s)))) = 40
            \<and> distanceTo (position (mesh (last (paintballs (mousedown 0 s)))))
                 (add (position (mesh (player s))) (Vector3 0 (7 / 10 * playerHeight) 0)) = 1))
   \<and> (\<not> isPointerLocked s \<longrightarrow> mousedown button s = s)
   \<and> (button \<noteq> 0 \<longrightarrow> mousedown button s = s)"
proof -
  let ?dir = "normalize (getWorldDirection (cam s))"
  let ?start = "add (position (mesh (player s))) (Vector3 0 (7 / 10 * playerHeight) 0)"
  have d: "distanceTo (add ?start ?dir) ?start = vlength ?dir"
    by (cases ?dir) (simp add: distanceTo_def add_def)
  have "vlength (multiplyScalar ?dir 40) = 40 \<and> distanceTo (add ?start ?dir) ?start = 1"
    if "getWorldDirection (cam s) \<noteq> Vector3 0 0 0"
    using vlength_normalize [OF that] d by (simp add: vlength_multiplyScalar)
  then show ?thesis
    by (simp add: mousedown_def shootPaintball_paintballs shootPaintball_fields mult.commute)
qed

text \<open>The statement at \<open>lockedRoof\<close>: one paintball, 1.19 above the player's feet and 1
  ahead, flying at speed 40; and nothing without the lock or with the right button.\<close>

theorem left_click_shoots_witness:
  "isPointerLocked lockedRoof
   \<and> paintballs (mousedown 0 lockedRoof) =
        [\<lparr>mesh = \<lparr>mid = 2, position = Vector3 0 (1119 / 100) (- 1)\<rparr>,
          velocity = Vector3 0 0 (- 40), color = 0, life = 3\<rparr>]
   \<and> vlength (velocity (last (paintballs (mousedown 0 lockedRoof)))) = 40
   \<and> \<not> isPointerLocked rooftop \<and> mousedown 0 rooftop = rooftop
   \<and> mousedown 2 lockedRoof = lockedRoof"
proof -
  note t = left_click_shoots [of lockedRoof 2]
  note u = left_click_shoots [of rooftop 0]
  have nz: "getWorldDirection (cam lockedRoof) \<noteq> Vector3 0 0 0"
    by (simp add: lockedRoof_facts)
  have a: "paintballs (mousedown 0 lockedRoof) =
        [\<lparr>mesh = \<lparr>mid = 2, position = Vector3 0 (1119 / 100) (- 1)\<rparr>,
          velocity = Vector3 0 0 (- 40), color = 0, life = 3\<rparr>]"
    using conjunct1 [OF t] lockedRoof_facts(1)
    by (simp add: lockedRoof_facts normalize_back add_def multiplyScalar_def playerHeight_def)
  have b: "vlength (velocity (last (paintballs (mousedown 0 lockedRoof)))) = 40"
    using conjunct1 [OF t] lockedRoof_facts(1) nz by blast
  have c: "mousedown 2 lockedRoof = lockedRoof"
    using conjunct2 [OF conjunct2 [OF t]] by simp
  have d: "mousedown 0 rooftop = rooftop"
    using conjunct1 [OF conjunct2 [OF u]] rooftop_view(1) by blast
  show ?thesis using a b c d lockedRoof_facts(1) rooftop_view(1) by blast
qed

subsection \<open>C7: the focus mode toggle\<close>

text \<open>
  C7. The field of view of the mode \<open>focused\<close> is 45 and that of \<open>broad\<close> is 90.
  \<open>toggleFocusMode\<close> maps \<open>focused\<close> to \<open>broad\<close> and \<open>broad\<close> to \<open>focused\<close>, asks for
  the field of view of the new mode, and is an involution on the mode state:
  applied twice it restores the focus mode and the parameters \<open>focusModes\<close> associates with
  it, and everything the toggle itself writes (label, vignette class, requested field of
  view, fog range, pixel ratio) is again what the original mode prescribes; on a state
  that a toggle produced, two further toggles change nothing at all.
\<close>

theorem toggleFocusMode_involution:
  "pfov (focusModes focused) = 45 \<and> pfov (focusModes broad) = 90
   \<and> fovTarget (toggleFocusMode s) = Some (pfov (focusModes (focusMode (toggleFocusMode s))))
   \<and> focusMode (toggleFocusMode (s\<lparr>focusMode := focused\<rparr>)) = broad
   \<and> focusMode (toggleFocusMode (s\<lparr>focusMode := broad\<rparr>)) = focused
   \<and> fovTarget (toggleFocusMode (s\<lparr>focusMode := focused\<rparr>)) = Some 90
   \<and> fovTarget (toggleFocusMode (s\<lparr>focusMode := broad\<rparr>)) = Some 45
   \<and> focusMode (toggleFocusMode (toggleFocusMode s)) = focusMode s
   \<and> focusModes (focusMode (toggleFocusMode (toggleFocusMode s))) = focusModes (focusMode s)
   \<and> fovTarget (toggleFocusMode (toggleFocusMode s)) = Some (pfov (focusModes (focusMode s)))
   \<and> focusModeEl (toggleFocusMode (toggleFocusMode s))
        = map_option (\<lambda>_. label (focusModes (focusMode s))) (focusModeEl s)
   \<and> vignetteEl (toggleFocusMode (toggleFocusMode s))
        = map_option (\<lambda>_. vignette (focusModes (focusMode s))) (vignetteEl s)
   \<and> fog_near (toggleFocusMode (toggleFocusMode s)) = (if focusMode s = focused then 20 else 10)
   \<and> fog_far (toggleFocusMode (toggleFocusMode s)) = (if focusMode s = focused then 100 else 60)
   \<and> pixelRatio (toggleFocusMode (toggleFocusMode s))
        = (if focusMode s = focused then devicePixelRatio s else devicePixelRatio s * (7 / 10))
   \<and> toggleFocusMode (toggleFocusMode (toggleFocusMode s)) = toggleFocusMode s"
  by (cases "focusMode s")
     (simp_all add: toggleFocusMode_def animateFOV_def Let_def focusModes_def
        option.map_comp comp_def)

subsection \<open>C8: mouse look needs pointer lock\<close>

text \<open>
  C8. Mouse look is gated on pointer lock. While the pointer is not locked a mouse
  movement leaves the whole state as it is, and a frame leaves the yaw, the pitch and
  the accumulated mouse deltas as they are; so a run ends in the same state, and the same
  view, when the mouse movements that arrive unlocked are taken out of it.
\<close>

theorem mouse_look_gated:
  "(\<not> isPointerLocked s \<longrightarrow> mousemove movementX movementY s = s)
   \<and> (\<exists>s'. update rc now delta s = Some s'
         \<and> (\<not> isPointerLocked s \<longrightarrow>
               yaw (player s') = yaw (player s) \<and> pitch (player s') = pitch (player s)
               \<and> mouseDeltaX s' = mouseDeltaX s \<and> mouseDeltaY s' = mouseDeltaY s))
   \<and> run rc (lockedInput rc evs s) s = run rc evs s"
proof -
  obtain s' where s': "update rc now delta s = Some s'"
    using update_obtain [of rc delta s now] by blast
  have "\<not> isPointerLocked s \<longrightarrow>
               yaw (player s') = yaw (player s) \<and> pitch (player s') = pitch (player s)
               \<and> mouseDeltaX s' = mouseDeltaX s \<and> mouseDeltaY s' = mouseDeltaY s"
    using update_view [OF s'] by (simp add: view_def)
  then show ?thesis using s' run_lockedInput by (simp add: mousemove_def)
qed

text \<open>The statement at the player on the roof, pointer not locked, and a run in which one
  mouse movement arrives before the lock and one after.\<close>

theorem mouse_look_gated_witness:
  "\<not> isPointerLocked rooftop
   \<and> mousemove 5 7 rooftop = rooftop
   \<and> (\<exists>s'. update noHits 0 (1 / 10) rooftop = Some s'
         \<and> yaw (player s') = 0 \<and> pitch (player s') = 0)
   \<and> lockedInput noHits [MouseMove 5 7, PointerLockChange True, MouseMove 3 4] rooftop
        = [PointerLockChange True, MouseMove 3 4]
   \<and> run noHits [PointerLockChange True, MouseMove 3 4] rooftop
        = run noHits [MouseMove 5 7, PointerLockChange True, MouseMove 3 4] rooftop"
proof -
  note m = mouse_look_gated [of rooftop 5 7 noHits 0 "1 / 10"
          "[MouseMove 5 7, PointerLockChange True, MouseMove 3 4]"]
  have a: "mousemove 5 7 rooftop = rooftop"
    using conjunct1 [OF m] rooftop_view(1) by (rule mp)
  obtain s' where s': "update noHits 0 (1 / 10) rooftop = Some s'"
      "\<not> isPointerLocked rooftop \<longrightarrow>
         yaw (player s') = yaw (player rooftop) \<and> pitch (player s') = pitch (player rooftop)
         \<and> mouseDeltaX s' = mouseDeltaX rooftop \<and> mouseDeltaY s' = mouseDeltaY rooftop"
    using conjunct1 [OF conjunct2 [OF m]] by blast
  have b: "\<exists>s'. update noHits 0 (1 / 10) rooftop = Some s'
         \<and> yaw (player s') = 0 \<and> pitch (player s') = 0"
    using s' rooftop_view by auto
  have l: "lockedInput noHits [MouseMove 5 7, PointerLockChange True, MouseMove 3 4] rooftop
        = [PointerLockChange True, MouseMove 3 4]"
    by (simp add: rooftop_view pointerlockchange_def)
  have c: "run noHits [PointerLockChange True, MouseMove 3 4] rooftop
        = run noHits [MouseMove 5 7, PointerLockChange True, MouseMove 3 4] rooftop"
    using conjunct2 [OF conjunct2 [OF m]] unfolding l .
  show ?thesis using rooftop_view(1) a b l c by blast
qed

subsection \<open>C9: thirty targets\<close>

text \<open>
  C9. The number of targets is always \<open>MAX_TARGETS = 30\<close>: the initial state holds 30
  targets, a hit splices one target out and pushes one new target, a frame keeps the
  number of targets, and so does every run from the initial state, which never fails.
\<close>

theorem target_count:
  "MAX_TARGETS = 30
   \<and> length (targets (init r dpr fmEl vEl)) = 30
   \<and> (j < length (targets s) \<longrightarrow>
        length (targets (hitTarget j i b s)) = length (targets s)
        \<and> butlast (targets (hitTarget j i b s)) = take j (targets s) @ drop (Suc j) (targets s))
   \<and> (\<exists>s'. update rc now delta s = Some s' \<and> length (targets s') = length (targets s))
   \<and> (\<exists>s'. run rc evs (init r dpr fmEl vEl) = Some s' \<and> length (targets s') = 30)"
proof -
  have a: "length (targets (init r dpr fmEl vEl)) = 30"
    using init_stock(1) [of r dpr fmEl vEl] by (simp add: MAX_TARGETS_def)
  obtain t where t: "targets (hitTarget j i b s) = splice j (targets s) @ [t]"
    using hitTarget_targets [of j i b s] by blast
  have b: "length (targets (hitTarget j i b s)) = length (targets s)
        \<and> butlast (targets (hitTarget j i b s)) = take j (targets s) @ drop (Suc j) (targets s)"
    if "j < length (targets s)"
  proof -
    have "butlast ((take j (targets s) @ drop (Suc j) (targets s)) @ [t])
        = take j (targets s) @ drop (Suc j) (targets s)"
      by (rule butlast_snoc)
    then show ?thesis unfolding t using that by (simp add: splice_def)
  qed
  obtain s1 where s1: "update rc now delta s = Some s1"
    using update_obtain [of rc delta s now] by blast
  have c: "length (targets s1) = length (targets s)"
    using update_keeps [OF s1] by (simp add: keeps_def)
  obtain s2 where s2: "run rc evs (init r dpr fmEl vEl) = Some s2"
      "keeps (init r dpr fmEl vEl) s2"
    using run_keeps by blast
  have d: "length (targets s2) = 30"
    using s2(2) a by (simp add: keeps_def)
  show ?thesis using a b s1 c s2(1) d by (simp add: MAX_TARGETS_def)
qed

text \<open>The statement at the state with one stray target, hit by the example paintball.\<close>

theorem target_count_witness:
  "0 < length (targets strayState)
   \<and> length (targets (hitTarget 0 0 ball strayState)) = 1
   \<and> butlast (targets (hitTarget 0 0 ball strayState)) = []"
  using target_count [where j = 0 and s = strayState and i = 0 and b = ball]
  by (simp add: stray_facts)

subsection \<open>C10: at most 200 splatters\<close>

text \<open>
  C10. The splatter array never holds more than 200 entries. \<open>addDecal\<close> pushes the new
  decal at the end, which makes at most 201 entries, and when that is more than 200 it drops
  the first (oldest) entry, takes its mesh out of the scene and disposes it; so the bound
  of 200 is kept by \<open>addDecal\<close> and holds after every run from the initial state.
\<close>

theorem splatter_bound:
  "splatters (addDecal h c s) =
     (let decal = \<lparr>smesh = next_id s, sobject = hobject h, spoint = hpoint h,
                    ssize = 1 + Math_random s 0 * (15 / 10), scolor = c\<rparr>
      in if 200 \<le> length (splatters s) then tl (splatters s) @ [decal]
         else splatters s @ [decal])
   \<and> (length (splatters s) \<le> 200 \<longrightarrow>
        length (splatters s @ [m]) \<le> 201 \<and> length (splatters (addDecal h c s)) \<le> 200)
   \<and> (200 \<le> length (splatters s) \<longrightarrow>
        smesh (hd (splatters s)) \<notin> scene (addDecal h c s)
        \<and> smesh (hd (splatters s)) \<in> disposed (addDecal h c s))
   \<and> (\<exists>s'. run rc evs (init r dpr fmEl vEl) = Some s' \<and> length (splatters s') \<le> 200)"
proof -
  have a: "splatters (addDecal h c s) =
     (let decal = \<lparr>smesh = next_id s, sobject = hobject h, spoint = hpoint h,
                    ssize = 1 + Math_random s 0 * (15 / 10), scolor = c\<rparr>
      in if 200 \<le> length (splatters s) then tl (splatters s) @ [decal]
         else splatters s @ [decal])"
  proof (cases "200 \<le> length (splatters s)")
    case True
    then have "splatters s \<noteq> []" by auto
    then show ?thesis using True
      by (simp add: addDecal_splatters Let_def Math_random_def)
  next
    case False
    then show ?thesis
      by (simp add: addDecal_splatters Let_def Math_random_def)
  qed
  obtain s2 where s2: "run rc evs (init r dpr fmEl vEl) = Some s2"
      "keeps (init r dpr fmEl vEl) s2"
    using run_keeps by blast
  have d: "length (splatters s2) \<le> 200"
    using s2(2) init_stock(3) [of r dpr fmEl vEl] by (simp add: keeps_def)
  show ?thesis
    using a addDecal_length [of s h c] addDecal_oldest [of s h c] s2(1) d by auto
qed

text \<open>The statement at \<open>fullState\<close>: the decal of identifier 100, the oldest, leaves.\<close>

theorem splatter_bound_witness:
  "length (splatters fullState) = 200
   \<and> length (splatters (addDecal wallHit 0 fullState)) \<le> 200
   \<and> 100 \<notin> scene (addDecal wallHit 0 fullState)
   \<and> 100 \<in> disposed (addDecal wallHit 0 fullState)"
  using splatter_bound [where s = fullState and h = wallHit and c = 0]
  by (simp add: fullState_facts)

end
